theory Spec2Isabelle
  imports Main "HOL-Library.Code_Target_Nat"
begin

section \<open>JavaScript strings\<close>

text \<open>
  A JavaScript string is a sequence of UTF-16 code units.  Every string of the program
  lies in the Basic Multilingual Plane, so a code unit is also a code point.  A code unit
  is a natural number; \<open>asc\<close> turns an ASCII literal into code units, and the macron
  vowels that \<open>App.tsx\<close> writes as \<open>\u0101\<close>, \<open>\u012B\<close>, ... appear as their
  numbers (\<open>0x101\<close>, \<open>0x12B\<close>, ...).
\<close>

type_synonym jsstring = "nat list"

definition asc :: "string \<Rightarrow> jsstring" where
  "asc s = map of_char s"

text \<open>\<open>Array.prototype.join\<close> on an array of strings.\<close>

fun join :: "jsstring \<Rightarrow> jsstring list \<Rightarrow> jsstring" where
  "join sep [] = []"
| "join sep [x] = x"
| "join sep (x # y # ys) = x @ sep @ join sep (y # ys)"

text \<open>\<open>String.prototype.includes\<close> (\<open>includes\<close> is a keyword here): the argument occurs as a contiguous run.\<close>

fun startsWith :: "jsstring \<Rightarrow> jsstring \<Rightarrow> bool" where
  "startsWith s [] = True"
| "startsWith [] (p # ps) = False"
| "startsWith (c # cs) (p # ps) = (c = p \<and> startsWith cs ps)"

fun includesStr :: "jsstring \<Rightarrow> jsstring \<Rightarrow> bool" where
  "includesStr [] sub = startsWith [] sub"
| "includesStr (c # cs) sub = (startsWith (c # cs) sub \<or> includesStr cs sub)"

text \<open>The decimal digits of a number, as \<open>${i + 1}\<close> prints it.\<close>

function showNat :: "nat \<Rightarrow> jsstring" where
  "showNat n = (if n < 10 then [48 + n] else showNat (n div 10) @ [48 + n mod 10])"
  by pat_completeness auto
termination
  by (relation "measure id") auto

declare showNat.simps [simp del]

text \<open>\<open>xs.map((x, i) => f(x, i))\<close>.\<close>

definition mapIndexed :: "('a \<Rightarrow> nat \<Rightarrow> 'b) \<Rightarrow> 'a list \<Rightarrow> 'b list" where
  "mapIndexed f xs = map (\<lambda>(i, x). f x i) (enumerate 0 xs)"

text \<open>\<open>String.prototype.split\<close> with a one-character separator.\<close>

fun splitOn :: "nat \<Rightarrow> jsstring \<Rightarrow> jsstring list" where
  "splitOn sep [] = [[]]"
| "splitOn sep (c # cs) =
     (if c = sep then [] # splitOn sep cs
      else (case splitOn sep cs of [] \<Rightarrow> [[c]] | x # xs \<Rightarrow> (c # x) # xs))"

section \<open>The runtime's Unicode operations on the Latin repertoire\<close>

text \<open>
  \<open>normalizeForMatch\<close> calls three operations of the JavaScript runtime:
  \<open>toLowerCase\<close>, \<open>normalize("NFD")\<close> and the property class \<open>\p{Diacritic}\<close>.
  They are modelled on the repertoire Basic Latin, Latin-1 Supplement, Latin Extended-A
  (\<open>U+0000..U+017F\<close>) and Combining Diacritical Marks (\<open>U+0300..U+036F\<close>), from the
  Unicode character data: the default case mappings, the canonical decompositions, the
  canonical combining classes and the property \<open>Diacritic\<close>.  The repertoire is closed
  under lower-casing and decomposition.  Code units outside it are left as they are by
  the definitions below, so statements about all strings carry the hypothesis
  \<open>inRepertoire\<close>.
\<close>

definition inRepertoire :: "nat \<Rightarrow> bool" where
  "inRepertoire c = (c < 0x180 \<or> (0x300 \<le> c \<and> c < 0x370))"

definition lowerOf :: "nat \<Rightarrow> jsstring" where
  "lowerOf c =
     (if 0x41 \<le> c \<and> c \<le> 0x5A then [c + 32]
      else if 0xC0 \<le> c \<and> c \<le> 0xDE \<and> c \<noteq> 0xD7 then [c + 32]
      else if c = 0x130 then [0x69, 0x307]
      else if c = 0x178 then [0xFF]
      else if ((0x100 \<le> c \<and> c \<le> 0x137) \<or> (0x14A \<le> c \<and> c \<le> 0x177)) \<and> even c then [c + 1]
      else if ((0x139 \<le> c \<and> c \<le> 0x148) \<or> (0x179 \<le> c \<and> c \<le> 0x17E)) \<and> odd c then [c + 1]
      else [c])"

definition upperOf :: "nat \<Rightarrow> jsstring" where
  "upperOf c =
     (if 0x61 \<le> c \<and> c \<le> 0x7A then [c - 32]
      else if c = 0xB5 then [0x39C]
      else if c = 0xDF then [0x53, 0x53]
      else if 0xE0 \<le> c \<and> c \<le> 0xFE \<and> c \<noteq> 0xF7 then [c - 32]
      else if c = 0xFF then [0x178]
      else if c = 0x131 then [0x49]
      else if c = 0x149 then [0x2BC, 0x4E]
      else if c = 0x17F then [0x53]
      else if c = 0x345 then [0x399]
      else if ((0x100 \<le> c \<and> c \<le> 0x137) \<or> (0x14A \<le> c \<and> c \<le> 0x177)) \<and> odd c then [c - 1]
      else if ((0x139 \<le> c \<and> c \<le> 0x148) \<or> (0x179 \<le> c \<and> c \<le> 0x17E)) \<and> even c then [c - 1]
      else [c])"

definition toLowerCase :: "jsstring \<Rightarrow> jsstring" where
  "toLowerCase s = concat (map lowerOf s)"

definition toUpperCase :: "jsstring \<Rightarrow> jsstring" where
  "toUpperCase s = concat (map upperOf s)"

text \<open>The full canonical decomposition of every decomposable character of the repertoire.\<close>

definition decompTable :: "(nat \<times> jsstring) list" where
  "decompTable = [
    (0xC0, [0x41, 0x300]), (0xC1, [0x41, 0x301]), (0xC2, [0x41, 0x302]), (0xC3, [0x41, 0x303]), (0xC4, [0x41, 0x308]),
    (0xC5, [0x41, 0x30A]), (0xC7, [0x43, 0x327]), (0xC8, [0x45, 0x300]), (0xC9, [0x45, 0x301]), (0xCA, [0x45, 0x302]),
    (0xCB, [0x45, 0x308]), (0xCC, [0x49, 0x300]), (0xCD, [0x49, 0x301]), (0xCE, [0x49, 0x302]), (0xCF, [0x49, 0x308]),
    (0xD1, [0x4E, 0x303]), (0xD2, [0x4F, 0x300]), (0xD3, [0x4F, 0x301]), (0xD4, [0x4F, 0x302]), (0xD5, [0x4F, 0x303]),
    (0xD6, [0x4F, 0x308]), (0xD9, [0x55, 0x300]), (0xDA, [0x55, 0x301]), (0xDB, [0x55, 0x302]), (0xDC, [0x55, 0x308]),
    (0xDD, [0x59, 0x301]), (0xE0, [0x61, 0x300]), (0xE1, [0x61, 0x301]), (0xE2, [0x61, 0x302]), (0xE3, [0x61, 0x303]),
    (0xE4, [0x61, 0x308]), (0xE5, [0x61, 0x30A]), (0xE7, [0x63, 0x327]), (0xE8, [0x65, 0x300]), (0xE9, [0x65, 0x301]),
    (0xEA, [0x65, 0x302]), (0xEB, [0x65, 0x308]), (0xEC, [0x69, 0x300]), (0xED, [0x69, 0x301]), (0xEE, [0x69, 0x302]),
    (0xEF, [0x69, 0x308]), (0xF1, [0x6E, 0x303]), (0xF2, [0x6F, 0x300]), (0xF3, [0x6F, 0x301]), (0xF4, [0x6F, 0x302]),
    (0xF5, [0x6F, 0x303]), (0xF6, [0x6F, 0x308]), (0xF9, [0x75, 0x300]), (0xFA, [0x75, 0x301]), (0xFB, [0x75, 0x302]),
    (0xFC, [0x75, 0x308]), (0xFD, [0x79, 0x301]), (0xFF, [0x79, 0x308]), (0x100, [0x41, 0x304]), (0x101, [0x61, 0x304]),
    (0x102, [0x41, 0x306]), (0x103, [0x61, 0x306]), (0x104, [0x41, 0x328]), (0x105, [0x61, 0x328]), (0x106, [0x43, 0x301]),
    (0x107, [0x63, 0x301]), (0x108, [0x43, 0x302]), (0x109, [0x63, 0x302]), (0x10A, [0x43, 0x307]), (0x10B, [0x63, 0x307]),
    (0x10C, [0x43, 0x30C]), (0x10D, [0x63, 0x30C]), (0x10E, [0x44, 0x30C]), (0x10F, [0x64, 0x30C]), (0x112, [0x45, 0x304]),
    (0x113, [0x65, 0x304]), (0x114, [0x45, 0x306]), (0x115, [0x65, 0x306]), (0x116, [0x45, 0x307]), (0x117, [0x65, 0x307]),
    (0x118, [0x45, 0x328]), (0x119, [0x65, 0x328]), (0x11A, [0x45, 0x30C]), (0x11B, [0x65, 0x30C]), (0x11C, [0x47, 0x302]),
    (0x11D, [0x67, 0x302]), (0x11E, [0x47, 0x306]), (0x11F, [0x67, 0x306]), (0x120, [0x47, 0x307]), (0x121, [0x67, 0x307]),
    (0x122, [0x47, 0x327]), (0x123, [0x67, 0x327]), (0x124, [0x48, 0x302]), (0x125, [0x68, 0x302]), (0x128, [0x49, 0x303]),
    (0x129, [0x69, 0x303]), (0x12A, [0x49, 0x304]), (0x12B, [0x69, 0x304]), (0x12C, [0x49, 0x306]), (0x12D, [0x69, 0x306]),
    (0x12E, [0x49, 0x328]), (0x12F, [0x69, 0x328]), (0x130, [0x49, 0x307]), (0x134, [0x4A, 0x302]), (0x135, [0x6A, 0x302]),
    (0x136, [0x4B, 0x327]), (0x137, [0x6B, 0x327]), (0x139, [0x4C, 0x301]), (0x13A, [0x6C, 0x301]), (0x13B, [0x4C, 0x327]),
    (0x13C, [0x6C, 0x327]), (0x13D, [0x4C, 0x30C]), (0x13E, [0x6C, 0x30C]), (0x143, [0x4E, 0x301]), (0x144, [0x6E, 0x301]),
    (0x145, [0x4E, 0x327]), (0x146, [0x6E, 0x327]), (0x147, [0x4E, 0x30C]), (0x148, [0x6E, 0x30C]), (0x14C, [0x4F, 0x304]),
    (0x14D, [0x6F, 0x304]), (0x14E, [0x4F, 0x306]), (0x14F, [0x6F, 0x306]), (0x150, [0x4F, 0x30B]), (0x151, [0x6F, 0x30B]),
    (0x154, [0x52, 0x301]), (0x155, [0x72, 0x301]), (0x156, [0x52, 0x327]), (0x157, [0x72, 0x327]), (0x158, [0x52, 0x30C]),
    (0x159, [0x72, 0x30C]), (0x15A, [0x53, 0x301]), (0x15B, [0x73, 0x301]), (0x15C, [0x53, 0x302]), (0x15D, [0x73, 0x302]),
    (0x15E, [0x53, 0x327]), (0x15F, [0x73, 0x327]), (0x160, [0x53, 0x30C]), (0x161, [0x73, 0x30C]), (0x162, [0x54, 0x327]),
    (0x163, [0x74, 0x327]), (0x164, [0x54, 0x30C]), (0x165, [0x74, 0x30C]), (0x168, [0x55, 0x303]), (0x169, [0x75, 0x303]),
    (0x16A, [0x55, 0x304]), (0x16B, [0x75, 0x304]), (0x16C, [0x55, 0x306]), (0x16D, [0x75, 0x306]), (0x16E, [0x55, 0x30A]),
    (0x16F, [0x75, 0x30A]), (0x170, [0x55, 0x30B]), (0x171, [0x75, 0x30B]), (0x172, [0x55, 0x328]), (0x173, [0x75, 0x328]),
    (0x174, [0x57, 0x302]), (0x175, [0x77, 0x302]), (0x176, [0x59, 0x302]), (0x177, [0x79, 0x302]), (0x178, [0x59, 0x308]),
    (0x179, [0x5A, 0x301]), (0x17A, [0x7A, 0x301]), (0x17B, [0x5A, 0x307]), (0x17C, [0x7A, 0x307]), (0x17D, [0x5A, 0x30C]),
    (0x17E, [0x7A, 0x30C]), (0x340, [0x300]), (0x341, [0x301]), (0x343, [0x313]), (0x344, [0x308, 0x301])
  ]"

definition decompOf :: "nat \<Rightarrow> jsstring" where
  "decompOf c = (case map_of decompTable c of Some d \<Rightarrow> d | None \<Rightarrow> [c])"

text \<open>The canonical combining class: zero for a starter, non-zero for a combining mark.\<close>

definition cccTable :: "(nat \<times> nat \<times> nat) list" where
  "cccTable = [
    (0x300, 0x314, 230), (0x315, 0x315, 232), (0x316, 0x319, 220), (0x31A, 0x31A, 232),
    (0x31B, 0x31B, 216), (0x31C, 0x320, 220), (0x321, 0x322, 202), (0x323, 0x326, 220),
    (0x327, 0x328, 202), (0x329, 0x333, 220), (0x334, 0x338, 1), (0x339, 0x33C, 220),
    (0x33D, 0x344, 230), (0x345, 0x345, 240), (0x346, 0x346, 230), (0x347, 0x349, 220),
    (0x34A, 0x34C, 230), (0x34D, 0x34E, 220), (0x350, 0x352, 230), (0x353, 0x356, 220),
    (0x357, 0x357, 230), (0x358, 0x358, 232), (0x359, 0x35A, 220), (0x35B, 0x35B, 230),
    (0x35C, 0x35C, 233), (0x35D, 0x35E, 234), (0x35F, 0x35F, 233), (0x360, 0x361, 234),
    (0x362, 0x362, 233), (0x363, 0x36F, 230)
  ]"

fun cccIn :: "(nat \<times> nat \<times> nat) list \<Rightarrow> nat \<Rightarrow> nat" where
  "cccIn [] c = 0"
| "cccIn ((lo, hi, k) # rs) c = (if lo \<le> c \<and> c \<le> hi then k else cccIn rs c)"

definition ccc :: "nat \<Rightarrow> nat" where
  "ccc c = cccIn cccTable c"

text \<open>
  \<open>\p{Diacritic}\<close> on the repertoire: the spacing marks \<open>^ ` U+00A8 U+00AF U+00B4 U+00B7
  U+00B8\<close> and the combining marks \<open>U+0300..U+034E\<close>, \<open>U+0350..U+0357\<close>,
  \<open>U+035D..U+0362\<close>.  The marks \<open>U+0358..U+035C\<close> and \<open>U+0363..U+036F\<close> combine but
  are not diacritics.
\<close>

definition isDiacritic :: "nat \<Rightarrow> bool" where
  "isDiacritic c =
     (c = 0x5E \<or> c = 0x60 \<or> c = 0xA8 \<or> c = 0xAF \<or> c = 0xB4 \<or> c = 0xB7 \<or> c = 0xB8
      \<or> (0x300 \<le> c \<and> c \<le> 0x34E) \<or> (0x350 \<le> c \<and> c \<le> 0x357) \<or> (0x35D \<le> c \<and> c \<le> 0x362))"

text \<open>
  Canonical ordering: inside every run of combining marks the marks are sorted by
  combining class, marks of equal class keeping their order.  \<open>orderInsert\<close> puts one
  character in front of an ordered string and lets it move right past the marks of
  strictly smaller class.
\<close>

fun orderInsert :: "nat \<Rightarrow> jsstring \<Rightarrow> jsstring" where
  "orderInsert c [] = [c]"
| "orderInsert c (d # ds) =
     (if ccc c \<noteq> 0 \<and> ccc d \<noteq> 0 \<and> ccc d < ccc c then d # orderInsert c ds else c # d # ds)"

definition canonicalOrder :: "jsstring \<Rightarrow> jsstring" where
  "canonicalOrder s = foldr orderInsert s []"

definition normalizeNFD :: "jsstring \<Rightarrow> jsstring" where
  "normalizeNFD s = canonicalOrder (concat (map decompOf s))"

section \<open>Text normalizer\<close>

text \<open>
  \<open>normalizeForMatch\<close> (App.tsx, lines 30-36).  The argument is optional: \<open>None\<close> is
  \<open>undefined\<close>, which \<open>input || ""\<close> turns into the empty string (as it does the empty
  string itself).
\<close>

definition normalizeForMatch :: "jsstring option \<Rightarrow> jsstring" where
  "normalizeForMatch input =
     filter (\<lambda>c. \<not> isDiacritic c)
       (normalizeNFD (toLowerCase (case input of None \<Rightarrow> [] | Some s \<Rightarrow> s)))"

section \<open>Regular expressions\<close>

text \<open>
  The patterns of \<open>App.tsx\<close> are alternations of sequences of: a literal character or
  \<open>\s\<close>, either of them under \<open>?\<close> or \<open>*\<close>, and the assertion \<open>\b\<close>.  No pattern
  that is tested has a flag, so matching is on code units and case-sensitive, and
  \<open>test\<close> asks whether the pattern matches somewhere in the string.
\<close>

datatype cls = Ch nat | Space

datatype item = One cls | Opt cls | Star cls | WordB

type_synonym regex = "item list list"

definition lit :: "string \<Rightarrow> item list" where
  "lit s = map (\<lambda>c. One (Ch (of_char c))) s"

text \<open>\<open>\s\<close>: the white space and line terminators of ECMAScript.\<close>

definition isSpace :: "nat \<Rightarrow> bool" where
  "isSpace c =
     ((9 \<le> c \<and> c \<le> 13) \<or> c = 0x20 \<or> c = 0xA0 \<or> c = 0x1680 \<or> (0x2000 \<le> c \<and> c \<le> 0x200A)
      \<or> c = 0x2028 \<or> c = 0x2029 \<or> c = 0x202F \<or> c = 0x205F \<or> c = 0x3000 \<or> c = 0xFEFF)"

text \<open>\<open>\w\<close>: \<open>[A-Za-z0-9_]\<close>.\<close>

definition isWordChar :: "nat \<Rightarrow> bool" where
  "isWordChar c =
     ((0x41 \<le> c \<and> c \<le> 0x5A) \<or> (0x61 \<le> c \<and> c \<le> 0x7A) \<or> (0x30 \<le> c \<and> c \<le> 0x39) \<or> c = 0x5F)"

fun clsOk :: "cls \<Rightarrow> nat \<Rightarrow> bool" where
  "clsOk (Ch k) c = (c = k)"
| "clsOk Space c = isSpace c"

text \<open>
  \<open>\b\<close> holds where exactly one of the character before and the character after is a
  word character; the ends of the string count as non-word.
\<close>

definition wordBefore :: "nat option \<Rightarrow> bool" where
  "wordBefore prev = (case prev of None \<Rightarrow> False | Some c \<Rightarrow> isWordChar c)"

definition wordAfter :: "jsstring \<Rightarrow> bool" where
  "wordAfter rest = (case rest of [] \<Rightarrow> False | c # _ \<Rightarrow> isWordChar c)"

text \<open>
  \<open>matchHere is prev rest\<close>: the sequence \<open>is\<close> matches a prefix of \<open>rest\<close>, the
  character before \<open>rest\<close> being \<open>prev\<close>.  Backtracking tries every way, so the result
  is whether some way matches.
\<close>

fun matchHere :: "item list \<Rightarrow> nat option \<Rightarrow> jsstring \<Rightarrow> bool" where
  "matchHere [] prev rest = True"
| "matchHere (One k # is) prev [] = False"
| "matchHere (One k # is) prev (c # cs) = (clsOk k c \<and> matchHere is (Some c) cs)"
| "matchHere (Opt k # is) prev [] = matchHere is prev []"
| "matchHere (Opt k # is) prev (c # cs) =
     ((clsOk k c \<and> matchHere is (Some c) cs) \<or> matchHere is prev (c # cs))"
| "matchHere (Star k # is) prev [] = matchHere is prev []"
| "matchHere (Star k # is) prev (c # cs) =
     ((clsOk k c \<and> matchHere (Star k # is) (Some c) cs) \<or> matchHere is prev (c # cs))"
| "matchHere (WordB # is) prev rest =
     (wordBefore prev \<noteq> wordAfter rest \<and> matchHere is prev rest)"

fun searchFrom :: "regex \<Rightarrow> nat option \<Rightarrow> jsstring \<Rightarrow> bool" where
  "searchFrom alts prev [] = list_ex (\<lambda>a. matchHere a prev []) alts"
| "searchFrom alts prev (c # cs) =
     (list_ex (\<lambda>a. matchHere a prev (c # cs)) alts \<or> searchFrom alts (Some c) cs)"

text \<open>\<open>RegExp.prototype.test\<close>.\<close>

definition test :: "regex \<Rightarrow> jsstring \<Rightarrow> bool" where
  "test p s = searchFrom p None s"

section \<open>Region classifier\<close>

record area =
  name :: jsstring
  patterns :: "regex list"

text \<open>\<open>HCC_ICMPS\<close> and \<open>WDC_ICMPS\<close> (App.tsx, lines 14-28), in declaration order.\<close>

definition HCC_ICMPS :: "area list" where
  "HCC_ICMPS = [
    \<lparr>name = asc ''Peacocke ICMP'',
     patterns = [[WordB # lit ''peacocke'' @ [WordB], WordB # lit ''peacocks'' @ [WordB]]]\<rparr>,
    \<lparr>name = asc ''Rotokauri ICMP'',
     patterns = [[WordB # lit ''rotokauri'' @ [WordB]]]\<rparr>,
    \<lparr>name = asc ''Te Rapa ICMP'',
     patterns = [[lit ''te'' @ [Opt Space] @ lit ''rapa'', WordB # lit ''pukete'' @ [WordB],
                  WordB # lit ''northgate'' @ [WordB]]]\<rparr>,
    \<lparr>name = asc ''Rototuna ICMP'',
     patterns = [[WordB # lit ''rototuna'' @ [WordB], WordB # lit ''flagstaff'' @ [WordB],
                  WordB # lit ''chartwell'' @ [WordB]]]\<rparr>,
    \<lparr>name = asc ''Ruakura ICMP'',
     patterns = [[WordB # lit ''ruakura'' @ [WordB], WordB # lit ''hillcrest'' @ [WordB],
                  WordB # lit ''silverdale'' @ [WordB], WordB # lit ''university'' @ [WordB]]]\<rparr>,
    \<lparr>name = asc ''Waitawhiriwhiri ICMP'',
     patterns = [[lit ''waitawhiriwhiri'', lit ''beerescourt'',
                  lit ''forest'' @ [Star Space] @ lit ''lake'' @ [Opt (Ch 0x73)],
                  lit ''frankton'', lit ''clarkin'', lit ''bryant'']]\<rparr>,
    \<lparr>name = asc ''Mangakotukutuku ICMP'',
     patterns = [[lit ''mangakotukutuku'', lit ''glenview'', lit ''melville'', lit ''fitzroy'',
                  lit ''bader'', lit ''kahikatea'', lit ''ohaupo'']]\<rparr>
  ]"

definition WDC_ICMPS :: "area list" where
  "WDC_ICMPS = [
    \<lparr>name = asc ''Ng'' @ [0x101] @ asc ''ruaw'' @ [0x101] @ asc ''hia ICMP'',
     patterns = [[lit ''ngaruawahia'',
                  lit ''ng'' @ [One (Ch 0x101)] @ lit ''ruaw'' @ [One (Ch 0x101)] @ lit ''hia'',
                  lit ''hopuhopu'']]\<rparr>,
    \<lparr>name = asc ''Huntly ICMP'',
     patterns = [[WordB # lit ''huntly'' @ [WordB], WordB # lit ''rahuipokeka'' @ [WordB]]]\<rparr>,
    \<lparr>name = asc ''Te Kauwhata ICMP'',
     patterns = [[lit ''te'' @ [Star Space] @ lit ''kauwhata'', lit ''waerenga'', lit ''meremere'']]\<rparr>
  ]"

definition hamiltonCityCouncil :: jsstring where
  "hamiltonCityCouncil = asc ''Hamilton City Council''"

definition waikatoDistrictCouncil :: jsstring where
  "waikatoDistrictCouncil = asc ''Waikato District Council''"

definition hamiltonFallback :: jsstring where
  "hamiltonFallback = asc ''Hamilton City ICMP (area to confirm)''"

definition waikatoFallback :: jsstring where
  "waikatoFallback = asc ''Waikato District ICMP (area to confirm)''"

text \<open>\<open>area.patterns.some((p) => p.test(loc))\<close>.\<close>

definition areaMatches :: "jsstring \<Rightarrow> area \<Rightarrow> bool" where
  "areaMatches loc a = list_ex (\<lambda>p. test p loc) (patterns a)"

text \<open>\<open>inferICMP\<close> (App.tsx, lines 38-47).\<close>

definition inferICMP :: "jsstring option \<Rightarrow> jsstring \<Rightarrow> jsstring" where
  "inferICMP location councilName =
     (let loc = normalizeForMatch location in
      if councilName = hamiltonCityCouncil
      then (case find (areaMatches loc) HCC_ICMPS of
              Some hit \<Rightarrow> name hit | None \<Rightarrow> hamiltonFallback)
      else (case find (areaMatches loc) WDC_ICMPS of
              Some hit \<Rightarrow> name hit | None \<Rightarrow> waikatoFallback))"

text \<open>\<open>inferICMPMatches\<close> (App.tsx, lines 49-57).\<close>

definition inferICMPMatches :: "jsstring option \<Rightarrow> jsstring \<Rightarrow> jsstring list" where
  "inferICMPMatches location councilName =
     (let loc = normalizeForMatch location;
          dict = (if councilName = hamiltonCityCouncil then HCC_ICMPS else WDC_ICMPS);
          matches = map name (filter (areaMatches loc) dict)
      in if length matches = 0
         then [if councilName = hamiltonCityCouncil then hamiltonFallback else waikatoFallback]
         else matches)"

section \<open>Session state and the classification handlers\<close>

text \<open>
  The \<open>useState\<close> cells of the component that the classifier, the renderers, the
  deriver and the self-checks read or write (App.tsx, lines 62-82), with their initial
  values.  The field \<open>id\<close> of a figure is \<open>ident\<close> here.
\<close>

record Figure =
  ident :: jsstring
  caption :: jsstring
  dataUrl :: jsstring
  selected :: bool

definition placeholderPng :: jsstring where
  "placeholderPng =
      asc ''data:image/png;base64,iVBORw0KGgoAAAANSUhEUgAAAAoAAAAKCAYAAACNMs+9AAAAFElEQVQYV2NkYGBgYGBg+M9ABQAKCAIBz1b5AwAAAABJRU5ErkJggg==''"

definition placeholderFigure :: "nat \<Rightarrow> Figure" where
  "placeholderFigure i = \<lparr>
     ident = asc ''fig-'' @ showNat (i + 1),
     caption = asc ''Figure '' @ showNat (i + 1) @ asc '': Placeholder diagram/map'',
     dataUrl = placeholderPng,
     selected = (i < 3)\<rparr>"

record appState =
  council :: jsstring
  includeHPMO :: bool
  projectName :: jsstring
  projectLocation :: jsstring
  inferredICMP :: jsstring
  icmpOptions :: "jsstring list"
  showIcmpModal :: bool
  icmpTemp :: jsstring
  figureGallery :: "Figure list"

definition notSet :: jsstring where
  "notSet = asc ''(not set)''"

definition initialState :: appState where
  "initialState = \<lparr>
     council = hamiltonCityCouncil,
     includeHPMO = True,
     projectName = asc ''Te Awa Industrial Upgrade - Stage 2'',
     projectLocation = [],
     inferredICMP = notSet,
     icmpOptions = [],
     showIcmpModal = False,
     icmpTemp = notSet,
     figureGallery = map placeholderFigure [0..<8]\<rparr>"

text \<open>
  \<open>matches[0] || d\<close>: the first element, or \<open>d\<close> when the array is empty or its first
  element is the empty string.
\<close>

fun firstOr :: "jsstring list \<Rightarrow> jsstring \<Rightarrow> jsstring" where
  "firstOr [] d = d"
| "firstOr (m # ms) d = (if m = [] then d else m)"

text \<open>\<open>handleAutoDetectICMP\<close> (App.tsx, lines 86-99).\<close>

definition handleAutoDetectICMP :: "appState \<Rightarrow> appState" where
  "handleAutoDetectICMP s =
     (let matches = inferICMPMatches (Some (projectLocation s)) (council s) in
      if length matches \<le> 1
      then s\<lparr>inferredICMP :=
                 firstOr matches
                   (if council s = hamiltonCityCouncil then hamiltonFallback else waikatoFallback),
             icmpOptions := [],
             showIcmpModal := False\<rparr>
      else s\<lparr>icmpOptions := matches,
             icmpTemp := firstOr matches notSet,
             showIcmpModal := True\<rparr>)"

text \<open>
  The two buttons of the chooser (App.tsx, lines 682-683): "Cancel" and "Use selected
  ICMP"; and the chooser's \<open>select\<close> (line 675).
\<close>

definition cancelIcmp :: "appState \<Rightarrow> appState" where
  "cancelIcmp s = s\<lparr>showIcmpModal := False, icmpOptions := []\<rparr>"

definition useSelectedIcmp :: "appState \<Rightarrow> appState" where
  "useSelectedIcmp s = s\<lparr>inferredICMP := icmpTemp s, showIcmpModal := False, icmpOptions := []\<rparr>"

definition chooseIcmp :: "jsstring \<Rightarrow> appState \<Rightarrow> appState" where
  "chooseIcmp opt s = s\<lparr>icmpTemp := opt\<rparr>"

section \<open>Findings\<close>

record TriggerSpec =
  metrics :: "jsstring list"
  baselines :: jsstring
  thresholds :: "jsstring list"
  actions :: "jsstring list"
  reporting :: jsstring

record Effects =
  cultural :: "jsstring list"
  social :: "jsstring list"
  environmental :: "jsstring list"
  spiritual :: "jsstring list"

record Finding =
  category :: jsstring
  issue :: jsstring
  effects :: Effects
  mitigations :: "jsstring list"
  recommendations :: "jsstring list"
  triggers :: TriggerSpec
  policyLinks :: "jsstring list"
  consentClauses :: "jsstring list"

text \<open>\<open>sampleFindings\<close> (App.tsx, lines 129-375).\<close>

definition findingWai :: Finding where
  "findingWai = \<lparr>
     category = asc ''wai'',
     issue = asc ''Potential degradation of mauri and clarity in tributary due to '' @
       asc ''earthworks sediment discharges'',
     effects = \<lparr>
       cultural = [
         asc ''Mauri of the awa diminished; disruption to mahinga kai practices'',
         asc ''Reduced ability for wh'' @ [0x101] @ asc ''nau to gather kai safely''
       ],
       social = [asc ''Community concern over river health; trust impacts''],
       environmental = [
         asc ''Elevated NTU and TSS; smothering of habitat; fish passage stress''
       ],
       spiritual = [
         asc ''Tapu/noa balance affected where discharges occur near w'' @ [0x101] @
           asc ''hi tapu''
       ]\<rparr>,
     mitigations = [
       asc ''Install staged sediment retention ponds sized to Hamilton District Plan '' @
         asc ''GD05 guidance; monitor turbidity (NTU) daily.'',
       asc ''No instream works during tuna migration periods; implement 25 m '' @
         asc ''riparian buffer in sensitive reaches.''
     ],
     recommendations = [
       asc ''Co-design mahinga kai monitoring with mana whenua; quarterly w'' @ [0x101] @
         asc ''nanga to review data and adaptive actions.'',
       asc ''Embed Te Ture Whaimana vision-objectives as assessment criteria in '' @
         asc ''contractor EMS (Environmental Management System).''
     ],
     triggers = \<lparr>
       metrics = [
         asc ''NTU (turbidity)'',
         asc ''TSS (mg/L)'',
         asc ''E. coli (cfu/100 mL)'',
         asc ''Visual clarity (m)'',
         asc ''Mahinga kai presence/abundance (tuna/'' @ [0x12B] @ asc ''nanga)''
       ],
       baselines = asc ''Establish 4-week pre-works baseline for NTU/clarity and cultural health '' @
         asc ''index (CHI) with mana whenua.'',
       thresholds = [
         asc ''NTU > baseline + 25% for >24h'',
         asc ''Clarity < 1.6 m during fine weather'',
         asc ''Any exceedance at mahinga kai sites''
       ],
       actions = [
         asc ''Stop high-risk works; inspect ESCP; deploy additional treatment within '' @
           asc ''24h'',
         asc ''Notify mana whenua and Council within 1 working day'',
         asc ''Hold hui within 5 working days to agree corrective actions''
       ],
       reporting = asc ''Quarterly report + dashboard; immediate incident reports when '' @
         asc ''thresholds tripped.''\<rparr>,
     policyLinks = [
       asc ''Te Ture Whaimana - Vision and Objective 1 (health and wellbeing of the '' @
         asc ''Waikato River)'',
       asc ''Tai Tumu, Tai Pari, Tai Ao EMP - Wai: water quality, mahinga kai '' @
         asc ''protection'',
       asc ''Hamilton District Plan - 25.14 Infrastructure; erosion/sediment control '' @
         asc ''standards''
     ],
     consentClauses = [
       asc ''Prior to works, the consent holder must submit an Erosion and Sediment '' @
         asc ''Control Plan (ESCP) prepared by a suitably qualified person, '' @
         asc ''demonstrating compliance with GD05 and avoiding instream works during '' @
         asc ''identified migration windows for tuna/'' @ [0x12B] @ asc ''nanga.'',
       asc ''Establish a Mauri Monitoring Programme co-developed with mana whenua '' @
         asc ''that sets baseline and trigger levels (including NTU and clarity), '' @
         asc ''provides for mahinga kai assessments, and requires adaptive responses '' @
         asc ''within 10 working days if triggers are exceeded.''
     ]\<rparr>"

definition findingWhenua :: Finding where
  "findingWhenua = \<lparr>
     category = asc ''whenua'',
     issue = asc ''Loss of topsoil and disturbance of known urup'' @ [0x101] @
       asc '' risk area within 200 m of works'',
     effects = \<lparr>
       cultural = [
         asc ''Risk to w'' @ [0x101] @ asc ''hi tapu/w'' @ [0x101] @ asc ''hi t'' @ [0x16B] @
           asc ''puna; mamae if disturbance occurs''
       ],
       social = [
         asc ''Project delays and conflict if discovery process unclear''
       ],
       environmental = [
         asc ''Erosion risk; reduced soil productivity if not salvaged''
       ],
       spiritual = [asc ''Tapu breach potential requiring tikanga responses'']\<rparr>,
     mitigations = [
       asc ''Cultural discovery protocol with immediate stop-work and notification '' @
         asc ''process.'',
       asc ''Topsoil salvage and reuse plan to support revegetation with taonga '' @
         asc ''species.''
     ],
     recommendations = [
       asc ''Archaeological Authority (HNZPT) pre-works; mana whenua monitors '' @
         asc ''present during initial ground-breaking.'',
       asc ''GIS mapping layer for w'' @ [0x101] @ asc ''hi tapu/w'' @ [0x101] @ asc ''hi t'' @
         [0x16B] @ asc ''puna integrated into contractor inductions.''
     ],
     triggers = \<lparr>
       metrics = [
         asc ''Protocol drills completed'',
         asc ''Monitor hours on-site'',
         asc ''Incidents recorded''
       ],
       baselines = asc ''Zero harm baseline (no unauthorised ground disturbance).'',
       thresholds = [
         asc ''Any suspected k'' @ [0x14D] @ asc ''iwi or taonga triggers stop-work''
       ],
       actions = [
         asc ''Immediate stop-work; protect area; notify mana whenua, HNZPT, Police '' @
           asc ''(if k'' @ [0x14D] @ asc ''iwi)'',
         asc ''Undertake tikanga-led process; update methodology before resuming''
       ],
       reporting = asc ''Incident log shared within 24h; monthly summary including training and '' @
         asc ''inductions.''\<rparr>,
     policyLinks = [
       asc ''Tai Tumu, Tai Pari, Tai Ao EMP - Whenua: protection of w'' @ [0x101] @
         asc ''hi tapu, soils, and landscapes'',
       asc ''Hamilton/Waikato District Plan - Heritage and Archaeology provisions''
     ],
     consentClauses = [
       asc ''Implement a Cultural Discovery Protocol approved by mana whenua prior '' @
         asc ''to commencement; all staff to be inducted and protocol kept onsite at '' @
         asc ''all times.'',
       asc ''Require mana whenua cultural monitors to be present during initial '' @
         asc ''stripping; consent holder to fund participation and reporting.''
     ]\<rparr>"

definition findingWhakapapa :: Finding where
  "findingWhakapapa = \<lparr>
     category = asc ''whakapapa'',
     issue = asc ''Fragmentation of ecological corridors reducing connectivity for taonga '' @
       asc ''species'',
     effects = \<lparr>
       cultural = [
         asc ''Disruption to whakapapa relationships among species and habitats''
       ],
       social = [
         asc ''Loss of local amenity and learning opportunities for rangatahi''
       ],
       environmental = [
         asc ''Barrier to fish passage; edge effects increase predators/weeds''
       ],
       spiritual = [asc ''Diminished wairua of place if connections severed'']\<rparr>,
     mitigations = [
       asc ''Design wildlife-friendly culverts and fish passage; stage works to '' @
         asc ''maintain connectivity.''
     ],
     recommendations = [
       asc ''Planting palette guided by whakapapa of place (locally-sourced '' @
         asc ''eco-sourced taonga species); 3-year establishment and pest control.''
     ],
     triggers = \<lparr>
       metrics = [
         asc ''Fish passage scores (NIWA tool)'',
         asc ''Survival of plantings (%)'',
         asc ''Predator trap-catch''
       ],
       baselines = asc ''Pre-works fish passage survey and habitat mapping.'',
       thresholds = [
         asc ''Fish passage score < baseline'',
         asc ''Plant survival <85%''
       ],
       actions = [
         asc ''Remediate culverts; replace failed plantings; intensify pest control''
       ],
       reporting = asc ''Six-monthly ecological report + w'' @ [0x101] @ asc ''nanga walkthrough.''\<rparr>,
     policyLinks = [
       asc ''Te Ture Whaimana - enhancement of ecological integrity'',
       asc ''Tai Tumu, Tai Pari, Tai Ao EMP - Whakapapa: intergenerational '' @
         asc ''stewardship''
     ],
     consentClauses = [
       asc ''Fish passage to meet NIWA fish passage assessment tool thresholds; '' @
         asc ''as-built certification prior to operation.''
     ]\<rparr>"

definition findingWhanau :: Finding where
  "findingWhanau = \<lparr>
     category = asc ''wh'' @ [0x101] @ asc ''nau'',
     issue = asc ''Construction traffic and noise affecting marae access, tangihanga, and '' @
       asc ''daily wh'' @ [0x101] @ asc ''nau life'',
     effects = \<lparr>
       cultural = [
         asc ''Disruption to marae protocols and ability to host kaupapa including '' @
           asc ''tangihanga''
       ],
       social = [
         asc ''Increased stress; reduced community cohesion if engagement is weak''
       ],
       environmental = [
         asc ''Dust and vibration affecting nearby sensitive receivers''
       ],
       spiritual = [
         asc ''Disturbance to wairua during significant wh'' @ [0x101] @ asc ''nau events''
       ]\<rparr>,
     mitigations = [
       asc ''Traffic Management Plan (TMP) with marae input; avoid peak event times'',
       asc ''Construction Noise and Vibration Management Plan; onsite dust '' @
         asc ''suppression''
     ],
     recommendations = [
       asc ''Co-design communications plan with mana whenua; 2-week lookahead notices'',
       asc ''Identify protected access windows around known marae events/tangihanga''
     ],
     triggers = \<lparr>
       metrics = [
         asc ''LAeq dB'',
         asc ''Number of complaints'',
         asc ''Access block incidents''
       ],
       baselines = asc ''Pre-works ambient noise survey and access mapping with wh'' @ [0x101] @
         asc ''nau.'',
       thresholds = [
         asc ''>2 substantiated access incidents/month'',
         asc ''Noise exceeds plan limits''
       ],
       actions = [
         asc ''Adjust work hours/routing; deploy additional acoustic barriers'',
         asc ''H'' @ [0x16B] @ asc ''tu w'' @ [0x101] @
           asc ''nanga within 5 working days to agree changes''
       ],
       reporting = asc ''Monthly community report; real-time hotline with log shared to mana '' @
         asc ''whenua.''\<rparr>,
     policyLinks = [
       asc ''Tai Tumu, Tai Pari, Tai Ao EMP - Wh'' @ [0x101] @ asc ''nau and participation'',
       asc ''Applicable District Plan - Noise/traffic rules and engagement '' @
         asc ''requirements''
     ],
     consentClauses = [
       asc ''Prepare and implement a TMP and Communications Plan co-designed with '' @
         asc ''mana whenua, including protected access windows for marae and '' @
         asc ''mechanisms for event-time pauses.'',
       asc ''Maintain a dedicated contact line and incident log accessible to mana '' @
         asc ''whenua; implement corrective actions within 5 working days.''
     ]\<rparr>"

definition findingMauri :: Finding where
  "findingMauri = \<lparr>
     category = asc ''mauri'',
     issue = asc ''Residual effects risk during storm events despite controls'',
     effects = \<lparr>
       cultural = [
         asc ''Perceived degradation of mauri during heavy rain events''
       ],
       social = [asc ''Community anxiety following spill/overflow rumours''],
       environmental = [asc ''Pulse loads of sediments and contaminants''],
       spiritual = [asc ''Loss of balance (tapu/noa) when incidents occur'']\<rparr>,
     mitigations = [
       asc ''Adaptive management triggers linked to rainfall intensity thresholds'',
       asc ''Contingency spill kits and overflow prevention measures''
     ],
     recommendations = [
       asc ''Integrate mauri indicators in dashboard with traffic-light triggers'',
       asc ''Run post-event w'' @ [0x101] @ asc ''nanga to agree remediation and learning''
     ],
     triggers = \<lparr>
       metrics = [
         asc ''Rainfall (mm/hr)'',
         asc ''NTU spikes'',
         asc ''Incident count''
       ],
       baselines = asc ''Event-based baseline using first-flush data'',
       thresholds = [
         asc ''>20 mm/hr with NTU > baseline + 40%'',
         asc ''Any overflow''
       ],
       actions = [
         asc ''Suspend exposed works; stand-up response team; notify within 24h''
       ],
       reporting = asc ''Event summary within 5 days; quarterly trend analysis with mana whenua.''\<rparr>,
     policyLinks = [
       asc ''Te Ture Whaimana - maintaining and enhancing the mauri of the Waikato '' @
         asc ''River'',
       asc ''Tai Tumu, Tai Pari, Tai Ao EMP - Mauri''
     ],
     consentClauses = [
       asc ''Adopt an Adaptive Management Plan with rainfall-linked triggers and '' @
         asc ''defined corrective actions; co-develop with mana whenua and submit '' @
         asc ''prior to works.''
     ]\<rparr>"

definition findingWairua :: Finding where
  "findingWairua = \<lparr>
     category = asc ''wairua'',
     issue = asc ''Loss of sense of place at w'' @ [0x101] @ asc ''hi t'' @ [0x16B] @
       asc ''puna vista and culturally sensitive viewshafts'',
     effects = \<lparr>
       cultural = [
         asc ''Erosion of identity where viewshafts are compromised''
       ],
       social = [asc ''Reduced pride and connection to place''],
       environmental = [
         asc ''Visual amenity effects; vegetation structure changes''
       ],
       spiritual = [asc ''Disruption to wairua associated with the site'']\<rparr>,
     mitigations = [
       asc ''Cultural design review panel with mana whenua; protect key sightlines''
     ],
     recommendations = [
       asc ''Develop a viewshaft protection plan and culturally anchored design '' @
         asc ''palette''
     ],
     triggers = \<lparr>
       metrics = [
         asc ''Design gate approvals'',
         asc ''Non-conformance count''
       ],
       baselines = asc ''Pre-works photo-simulations agreed with mana whenua'',
       thresholds = [asc ''Any deviation from agreed sightline envelope''],
       actions = [
         asc ''Iterate design to restore sightlines; additional planting/screening''
       ],
       reporting = asc ''Design review minutes; pre/post photo-comparisons filed with CIA '' @
         asc ''updates.''\<rparr>,
     policyLinks = [
       asc ''Tai Tumu, Tai Pari, Tai Ao EMP - Wairua and landscapes'',
       asc ''District Plan - Landscape/amenity objectives and policies''
     ],
     consentClauses = [
       asc ''Establish a Cultural Design Review Panel with decision checkpoints at '' @
         asc ''concept, developed, and pre-construction stages; implement agreed '' @
         asc ''viewshaft protection measures.''
     ]\<rparr>"

definition sampleFindings :: "Finding list" where
  "sampleFindings = [findingWai, findingWhenua, findingWhakapapa, findingWhanau, findingMauri, findingWairua]"

section \<open>Narrative builders\<close>

text \<open>\<open>buildStandardManaWhenua\<close> (App.tsx, lines 379-402), local constant by local constant.\<close>

definition mwSections :: "jsstring list" where
  "mwSections = [
    asc ''Executive Summary'',
    asc ''Background and Whakapapa'',
    asc ''Methodology (Kaupapa M'' @ [0x101] @ asc ''ori, W'' @ [0x101] @ asc ''nanga)'',
    asc ''Categories Assessment'',
    asc ''ICMP and Policy Alignment'',
    asc ''Cultural Monitoring Programme'',
    asc ''Consent Conditions and Next Steps''
  ]"

definition mwIntro :: "appState \<Rightarrow> jsstring" where
  "mwIntro s =
      asc ''# CIA - Mana Whenua Narrative (Standard)'' @ [10, 10] @ asc ''## Project'' @ [10] @
      projectName s @
      [10, 10] @ asc ''## Whakatau'' @ [0x101] @ asc ''k'' @ [0x12B] @ asc '' / Context'' @
      [10] @ asc ''Ko te mana o te awa me te whenua te t'' @ [0x16B, 0x101] @
      asc ''papa. This kaupapa recognises our relationship to wai, whenua, and all '' @
      asc ''living systems. We have assessed the technical reports and translated '' @
      asc ''key matters into plain language for wh'' @ [0x101] @ asc ''nau.''"

definition mwCat :: "Finding \<Rightarrow> nat \<Rightarrow> jsstring" where
  "mwCat f i =
      [10] @ asc ''### '' @ showNat (i + 1) @ asc ''. '' @ toUpperCase (category f) @
      [10] @ asc ''**Ng'' @ [0x101] @ asc '' take / Issue:** '' @ issue f @
      [10, 10] @ asc ''**Ng'' @ [0x101] @ asc '' whakatika / Mitigations:**'' @ [10] @
      asc ''- '' @
      join ([10] @ asc ''- '') (mitigations f) @
      [10, 10] @ asc ''**Ng'' @ [0x101] @ asc '' t'' @ [0x16B] @
      asc ''tohunga / Recommendations:**'' @ [10] @ asc ''- '' @
      join ([10] @ asc ''- '') (recommendations f) @
      [10, 10] @ asc ''**Monitoring triggers (plain):** '' @
      join (asc '', '') (metrics (triggers f)) @ [10]"

definition mwCats :: "Finding list \<Rightarrow> jsstring" where
  "mwCats findings = join [10] (mapIndexed mwCat findings)"

definition mwAlign :: "appState \<Rightarrow> jsstring" where
  "mwAlign s =
      [10] @ asc ''## Te Ture Whaimana and Tai Tumu, Tai Pari, Tai Ao alignment'' @ [10] @
      asc ''We checked the mahi against the Vision and Objectives of Te Ture '' @
      asc ''Whaimana, the Waikato-Tainui EMP (Tai Tumu, Tai Pari, Tai Ao), and the '' @
      asc ''relevant District Plan. The project is connected to: **'' @
      inferredICMP s @ asc ''**.''"

definition mwOutro :: jsstring where
  "mwOutro =
      [10] @ asc ''## Tikanga and Participation'' @ [10] @
      asc ''- Mana whenua monitors present at ground-break.'' @ [10] @ asc ''- W'' @ [0x101] @
      asc ''nanga-a-rohe, quarterly, to review monitoring and adapt.'' @ [10] @
      asc ''- Cultural discovery protocol: stop-work, karakia, k'' @ [0x14D] @
      asc ''rero, record.'' @ [10, 10] @ asc ''## Ask to Council / Developer'' @ [10] @
      asc ''Adopt the consent conditions listed and fund the co-governed monitoring '' @
      asc ''programme. Partner early on planting design and mahinga kai.''"

definition buildStandardManaWhenua :: "appState \<Rightarrow> Finding list \<Rightarrow> jsstring" where
  "buildStandardManaWhenua s findings =
     join [10, 10]
       [mwIntro s,
        [10] @ asc ''## Sections'' @ [10] @ asc ''- '' @ join ([10] @ asc ''- '') mwSections,
        [10] @ asc ''## Categories - Issues, Mitigations, Recommendations'' @ [10] @ mwCats findings,
        mwAlign s,
        mwOutro]"

text \<open>\<open>buildStandardCouncil\<close> (App.tsx, lines 404-420).\<close>

definition policyInstruments :: "jsstring \<Rightarrow> jsstring" where
  "policyInstruments councilName =
     (if councilName = hamiltonCityCouncil
      then asc ''He Pou Manawa Ora; Hamilton District Plan''
      else asc ''Waikato District Plan'')"

text \<open>
  The template literal \<open>scope\<close>: the text before the conditional, the conditional
  (\<open>policyInstruments\<close>), and the text after it with the label.
\<close>

definition scopeBefore :: jsstring where
  "scopeBefore =
      asc ''## Assessment Scope'' @ [10] @
      asc ''- Technical reports reviewed: EMPs, CMPs, ESCPs, '' @
      asc ''ecology/archaeology/hydrology.'' @ [10] @
      asc ''- Policy instruments: Te Ture Whaimana; Tai Tumu, Tai Pari, Tai Ao EMP; ''"

definition scopeAfter :: "appState \<Rightarrow> jsstring" where
  "scopeAfter s = asc ''.'' @ [10] @ asc ''- ICMP area: **'' @ inferredICMP s @ asc ''**.''"

definition scope :: "appState \<Rightarrow> jsstring" where
  "scope s = scopeBefore @ policyInstruments (council s) @ scopeAfter s"

definition matrixRow :: "Finding \<Rightarrow> nat \<Rightarrow> jsstring" where
  "matrixRow f i =
      showNat (i + 1) @ asc ''. '' @ category f @ asc '' | '' @ issue f @
      [10] @ asc ''   - Mitigation: '' @ join (asc ''; '') (mitigations f) @
      [10] @ asc ''   - Recommendation: '' @ join (asc ''; '') (recommendations f) @
      [10] @ asc ''   - Policy: '' @ join (asc ''; '') (policyLinks f)"

definition matrix :: "Finding list \<Rightarrow> jsstring" where
  "matrix findings = join [10, 10] (mapIndexed matrixRow findings)"

definition conditions :: "Finding list \<Rightarrow> jsstring" where
  "conditions findings =
     join [10] (mapIndexed (\<lambda>c i. showNat (i + 1) @ asc ''. '' @ c) (concat (map consentClauses findings)))"

definition buildStandardCouncil :: "appState \<Rightarrow> Finding list \<Rightarrow> jsstring" where
  "buildStandardCouncil s findings =
      asc ''# CIA - Council/Developer Narrative (Standard)'' @ [10, 10] @ asc ''## Project'' @
      [10] @
      projectName s @ [10, 10] @ scope s @
      [10, 10] @ asc ''## Category Matrix (Issues -> Mitigation -> Recommendation -> Policy '' @
      asc ''Link)'' @ [10] @
      matrix findings @
      [10, 10] @ asc ''## Proposed Consent Conditions (extract)'' @ [10] @
      conditions findings @
      [10, 10] @ asc ''## Monitoring and Adaptive Management'' @ [10] @
      asc ''- Baseline: clarity/NTU, macroinvertebrates, mahinga kai presence.'' @ [10] @
      asc ''- Triggers: set per-site with mana whenua; actions within 10 working '' @
      asc ''days.'' @ [10] @
      asc ''- Reporting: quarterly hui plus written report for Council and mana '' @
      asc ''whenua.''"

section \<open>Monitoring plan deriver\<close>

record MonitoringRow =
  phase :: jsstring
  focus :: jsstring
  role :: jsstring
  frequency :: jsstring

text \<open>\<open>baseMonitoringPlanRows\<close> (App.tsx, lines 430-435).\<close>

definition baseMonitoringPlanRows :: "MonitoringRow list" where
  "baseMonitoringPlanRows = [
    \<lparr>phase = asc ''Pre-construction'',
     focus = asc ''Baseline mauri / mudfish / habitat surveys'',
     role = asc ''Attend site walkover; confirm w'' @ [0x101] @
       asc ''hi tapu avoidance; record baseline (photos/notes)'',
     frequency = asc ''One-off''\<rparr>,
    \<lparr>phase = asc ''During earthworks'',
     focus = asc ''Sediment discharge (NTU/TSS), discovery protocol readiness'',
     role = asc ''Onsite checks; hold stop-work if tikanga/cultural risk; verify ESCP '' @
       asc ''field controls'',
     frequency = asc ''Daily / storm-event''\<rparr>,
    \<lparr>phase = asc ''Ecology'',
     focus = asc ''Mudfish / fish passage; planting survival'',
     role = asc ''Guide methods using tikanga; co-observe with ecologist; confirm safe '' @
       asc ''handling/release'',
     frequency = asc ''Monthly / seasonal''\<rparr>,
    \<lparr>phase = asc ''Close-out'',
     focus = asc ''Verify consent conditions delivered; cultural outcomes'',
     role = asc ''Final site check; sign-off report to Council and mana whenua'',
     frequency = asc ''One-off''\<rparr>
  ]"

text \<open>
  \<open>deriveMonitoringRows\<close> (App.tsx, lines 437-465).  \<open>scanText\<close> is the local constant
  \<open>text\<close>, \<open>hasMudfish\<close> the local constant of that name, \<open>coversMudfish\<close> the result of
  \<open>rows.find(...)\<close> read as a condition, and \<open>splice1\<close> is \<open>rows.splice(1, 0, x)\<close>.
\<close>

definition mudfishPattern :: regex where
  "mudfishPattern = [lit ''mudfish'', One (Ch 0x12B) # lit ''nanga'']"

definition scanText :: "Finding list \<Rightarrow> jsstring" where
  "scanText findings =
     join (asc '' '')
       (map (\<lambda>f. toLowerCase (issue f @ asc '' '' @ join (asc '' '') (recommendations f))) findings)"

definition hasMudfish :: "Finding list \<Rightarrow> bool" where
  "hasMudfish findings = test mudfishPattern (scanText findings)"

definition coversMudfish :: "MonitoringRow list \<Rightarrow> bool" where
  "coversMudfish rows =
     (find (\<lambda>r. includesStr (toLowerCase (focus r)) (asc ''mudfish'')) rows \<noteq> None)"

definition splice1 :: "'a \<Rightarrow> 'a list \<Rightarrow> 'a list" where
  "splice1 x rows = take 1 rows @ [x] @ drop 1 rows"

definition speciesRow :: MonitoringRow where
  "speciesRow = \<lparr>
     phase = asc ''Pre-construction'',
     focus = asc ''Targeted mudfish presence/absence at drains/wetlands'',
     role = asc ''Assist ecologist; apply tikanga for handling; confirm relocation plan if needed'',
     frequency = asc ''One-off''\<rparr>"

definition hpmoRow :: "bool \<Rightarrow> MonitoringRow" where
  "hpmoRow includeHPMOFlag = \<lparr>
     phase = asc ''During earthworks'',
     focus = asc ''He Pou Manawa Ora engagement checkpoint'',
     role = asc ''Attend engagement checkpoint; confirm cultural measures are active'',
     frequency = (if includeHPMOFlag then asc ''At each stage-gate'' else asc ''(disabled)'')\<rparr>"

definition waikatoRow :: MonitoringRow where
  "waikatoRow = \<lparr>
     phase = asc ''During earthworks'',
     focus = asc ''Waikato District Plan noise/access checks near marae'',
     role = asc ''Check access windows and noise limits with wh'' @ [0x101] @ asc ''nau'',
     frequency = asc ''Weekly''\<rparr>"

definition deriveMonitoringRows :: "Finding list \<Rightarrow> jsstring \<Rightarrow> bool \<Rightarrow> MonitoringRow list" where
  "deriveMonitoringRows findings councilName includeHPMOFlag =
     (let rows = baseMonitoringPlanRows;
          rows = (if hasMudfish findings \<and> \<not> coversMudfish rows
                  then splice1 speciesRow rows else rows)
      in if councilName = hamiltonCityCouncil
         then rows @ [hpmoRow includeHPMOFlag]
         else rows @ [waikatoRow])"

section \<open>Document exporter\<close>

text \<open>
  The document that the \<open>docx\<close> library is given: the children of its one section.  An
  image paragraph holds the decoded bytes and the display size.
\<close>

datatype heading = NoHeading | TITLE | HEADING_2 | HEADING_3

datatype docChild =
    Paragraph jsstring heading
  | ImageRun "nat list" nat nat
  | Table "jsstring list list"

text \<open>
  What an export can do to the page: hand a named file to the browser (\<open>a.click()\<close> on a
  link whose \<open>download\<close> is the file name and whose \<open>href\<close> is the blob), or raise an
  alert.  \<open>'b\<close> is the type of blobs.
\<close>

record 'b page =
  downloads :: "(jsstring \<times> 'b) list"
  alerts :: "jsstring list"

text \<open>
  The two library calls that can throw are parameters: \<open>atob\<close>, which throws on a string
  that is not base64 (\<open>None\<close>), and \<open>Packer.toBlob\<close>, whose promise can reject (\<open>None\<close>).
  Both exports run inside one \<open>try\<close>, and the \<open>catch\<close> raises the alert.
\<close>

definition exportFailedMessage :: jsstring where
  "exportFailedMessage = asc ''DOCX export failed. Check console for details.''"

definition exportFailed :: "'b page \<Rightarrow> 'b page" where
  "exportFailed pg = pg\<lparr>alerts := alerts pg @ [exportFailedMessage]\<rparr>"

definition deliver :: "jsstring \<Rightarrow> 'b \<Rightarrow> 'b page \<Rightarrow> 'b page" where
  "deliver fileName blob pg = pg\<lparr>downloads := downloads pg @ [(fileName, blob)]\<rparr>"

text \<open>\<open>s.replace(/\s+/g, "_")\<close>: every run of white space becomes one underscore.\<close>

fun replaceRuns :: "bool \<Rightarrow> jsstring \<Rightarrow> jsstring" where
  "replaceRuns inRun [] = []"
| "replaceRuns inRun (c # cs) =
     (if isSpace c then (if inRun then replaceRuns True cs else 0x5F # replaceRuns True cs)
      else c # replaceRuns False cs)"

definition replaceSpaces :: "jsstring \<Rightarrow> jsstring" where
  "replaceSpaces s = replaceRuns False s"

text \<open>\<open>f.dataUrl.split(",")[1] || ""\<close>.\<close>

definition payloadOf :: "jsstring \<Rightarrow> jsstring" where
  "payloadOf url = (case splitOn 0x2C url of a # b # rest \<Rightarrow> b | _ \<Rightarrow> [])"

text \<open>
  One element of \<open>figureBlocks\<close>; \<open>Uint8Array.from(bin, c => c.charCodeAt(0))\<close> keeps
  the low eight bits of every code unit.
\<close>

definition figureBlock :: "(jsstring \<Rightarrow> jsstring option) \<Rightarrow> Figure \<Rightarrow> docChild list option" where
  "figureBlock atob f =
     (case atob (payloadOf (dataUrl f)) of
        None \<Rightarrow> None
      | Some bin \<Rightarrow> Some [Paragraph (caption f) HEADING_3, ImageRun (map (\<lambda>c. c mod 256) bin) 360 240])"

fun figureBlocks :: "(jsstring \<Rightarrow> jsstring option) \<Rightarrow> Figure list \<Rightarrow> docChild list list option" where
  "figureBlocks atob [] = Some []"
| "figureBlocks atob (f # fs) =
     (case figureBlock atob f of
        None \<Rightarrow> None
      | Some b \<Rightarrow> (case figureBlocks atob fs of None \<Rightarrow> None | Some bs \<Rightarrow> Some (b # bs)))"

definition narrativeDoc :: "jsstring \<Rightarrow> jsstring \<Rightarrow> docChild list list \<Rightarrow> docChild list" where
  "narrativeDoc title body blocks =
     [Paragraph title TITLE] @
     map (\<lambda>line. Paragraph line NoHeading) (splitOn 10 body) @
     [Paragraph (asc ''Selected Figures (Inline)'') HEADING_2] @
     concat blocks"

text \<open>\<open>exportNarrativeDocx\<close> (App.tsx, lines 529-566).\<close>

definition exportNarrativeDocx ::
  "(jsstring \<Rightarrow> jsstring option) \<Rightarrow> (docChild list \<Rightarrow> 'b option) \<Rightarrow>
   jsstring \<Rightarrow> jsstring \<Rightarrow> Figure list \<Rightarrow> 'b page \<Rightarrow> 'b page" where
  "exportNarrativeDocx atob toBlob title body figures pg =
     (case figureBlocks atob figures of
        None \<Rightarrow> exportFailed pg
      | Some blocks \<Rightarrow>
          (case toBlob (narrativeDoc title body blocks) of
             None \<Rightarrow> exportFailed pg
           | Some blob \<Rightarrow> deliver (replaceSpaces title @ asc ''.docx'') blob pg))"

text \<open>\<open>exportMonitoringDocx\<close> (App.tsx, lines 469-527).\<close>

definition monitoringDoc :: "jsstring \<Rightarrow> MonitoringRow list \<Rightarrow> docChild list" where
  "monitoringDoc project rows =
     [Paragraph (asc ''Cultural Monitoring Programme'') TITLE,
      Paragraph (asc ''Project: '' @ project) NoHeading,
      Paragraph (asc ''Timeline & Tasks'') HEADING_2,
      Table ([asc ''Phase'', asc ''Monitoring focus'', asc ''Role of Cultural Monitor'', asc ''Frequency'']
             # map (\<lambda>r. [phase r, focus r, role r, frequency r]) rows),
      Paragraph (asc ''Job Description'') HEADING_2,
      Paragraph ([0x2022] @ asc '' Represent mana whenua onsite and act as kaitiaki of w'' @ [0x101] @
                 asc ''hi tapu, wai and whenua.'') NoHeading,
      Paragraph ([0x2022] @ asc '' Hold stop-work authority when tikanga or cultural risk is observed.'') NoHeading,
      Paragraph ([0x2022] @ asc '' Record observations (photos + narrative) into the CIA dashboard.'') NoHeading,
      Paragraph ([0x2022] @ asc '' Attend toolbox talks and ensure contractors understand cultural protocols.'') NoHeading,
      Paragraph ([0x2022] @ asc '' Escalate incident triggers to Project Manager and Council.'') NoHeading]"

definition exportMonitoringDocx ::
  "(docChild list \<Rightarrow> 'b option) \<Rightarrow> jsstring \<Rightarrow> MonitoringRow list \<Rightarrow> 'b page \<Rightarrow> 'b page" where
  "exportMonitoringDocx toBlob project rows pg =
     (case toBlob (monitoringDoc project rows) of
        None \<Rightarrow> exportFailed pg
      | Some blob \<Rightarrow>
          deliver (asc ''Cultural_Monitoring_Programme_'' @ replaceSpaces project @ asc ''.docx'') blob pg)"

section \<open>Self-check validator\<close>

text \<open>
  \<open>runSelfChecks\<close> (App.tsx, lines 570-603).  \<open>selfChecks\<close> is the body of the \<open>try\<close>:
  \<open>Inl m\<close> is \<open>throw new Error(m)\<close>.  The loop over the six field names cannot throw on
  a value of type \<open>Finding\<close>, whose fields are all present.  \<open>markerPattern\<close> is the
  regular expression of line 582, in which \<open>\\\<close> matches one backslash.
\<close>

definition markerPattern :: regex where
  "markerPattern = [lit ''Whakatau'' @ [One (Ch 0x5C)] @ lit ''u0101k'' @ [One (Ch 0x5C)] @ lit ''u012B'']"

definition expectedCategories :: "jsstring list" where
  "expectedCategories =
     [asc ''wai'', asc ''whenua'', asc ''whakapapa'', asc ''wh'' @ [0x101] @ asc ''nau'',
      asc ''mauri'', asc ''wairua'']"

definition selfChecks :: "appState \<Rightarrow> jsstring + unit" where
  "selfChecks s =
     (if list_ex (\<lambda>f. category f = [] \<or> issue f = []) sampleFindings
      then Inl (asc ''Missing category or issue'')
      else if \<not> test markerPattern (buildStandardManaWhenua s sampleFindings)
      then Inl (asc ''Unicode escape missing'')
      else if \<not> includesStr (buildStandardCouncil s sampleFindings)
                   (if council s = hamiltonCityCouncil then asc ''He Pou Manawa Ora''
                    else asc ''Waikato District Plan'')
      then Inl (asc ''Council branch failed'')
      else case find (\<lambda>c. c \<notin> set (map category sampleFindings)) expectedCategories of
        Some c \<Rightarrow> Inl (asc ''Missing category: '' @ c)
      | None \<Rightarrow>
          if length (filter selected (figureGallery s)) = 0
          then Inl (asc ''No figures selected'')
          else if \<not> test [lit ''Waitawhiriwhiri ICMP'']
                         (inferICMP (Some (asc ''Waitawhiriwhiri'')) hamiltonCityCouncil)
          then Inl (asc ''ICMP inference failed for Waitawhiriwhiri'')
          else if \<not> test [lit ''Mangakotukutuku ICMP'']
                         (inferICMP (Some (asc ''Mangakotukutuku'')) hamiltonCityCouncil)
          then Inl (asc ''ICMP inference failed for Mangakotukutuku'')
          else Inr ())"

definition runSelfChecks :: "appState \<Rightarrow> jsstring" where
  "runSelfChecks s =
     (case selfChecks s of
        Inr _ \<Rightarrow> asc ''All self-checks passed''
      | Inl m \<Rightarrow> asc ''Test failure: '' @ m)"

section \<open>Notions used in the statements\<close>

text \<open>
  A character that the normalizer leaves alone: it is its own lower case and its own
  decomposition, it is a starter, and it is not a diacritic.
\<close>

definition stable :: "nat \<Rightarrow> bool" where
  "stable e = (lowerOf e = [e] \<and> decompOf e = [e] \<and> ccc e = 0 \<and> \<not> isDiacritic e)"

text \<open>
  \<open>lowerStable c\<close>: every character of the lower case of \<open>c\<close> is its own lower case, and
  it is \<open>c\<close>, a character below \<open>U+0180\<close>, or the combining dot above.
\<close>

definition lowerStable :: "nat \<Rightarrow> bool" where
  "lowerStable c = list_all (\<lambda>d. lowerOf d = [d] \<and> (d = c \<or> d < 0x180 \<or> d = 0x307)) (lowerOf c)"

text \<open>
  The replacement of diacritic-marked characters by their plain equivalents: decompose
  and drop the diacritics (\<open>U+012B\<close> becomes \<open>i\<close>); on a finding, in the two fields that
  the deriver scans.
\<close>

definition plainText :: "jsstring \<Rightarrow> jsstring" where
  "plainText s = filter (\<lambda>c. \<not> isDiacritic c) (normalizeNFD s)"

definition plainFinding :: "Finding \<Rightarrow> Finding" where
  "plainFinding f = f\<lparr>issue := plainText (issue f), recommendations := map plainText (recommendations f)\<rparr>"

text \<open>
  Two findings that differ at most in the case of letters in the two scanned fields, and
  a finding whose scanned fields lie in the repertoire.
\<close>

definition sameUpToCase :: "Finding \<Rightarrow> Finding \<Rightarrow> bool" where
  "sameUpToCase f g =
     (toLowerCase (issue f) = toLowerCase (issue g)
      \<and> map toLowerCase (recommendations f) = map toLowerCase (recommendations g))"

definition inRepertoireFinding :: "Finding \<Rightarrow> bool" where
  "inRepertoireFinding f =
     (list_all inRepertoire (issue f) \<and> list_all (list_all inRepertoire) (recommendations f))"

text \<open>A finding with a given issue and no recommendation.\<close>

definition inangaFinding :: "jsstring \<Rightarrow> Finding" where
  "inangaFinding text = findingWhakapapa\<lparr>issue := text, recommendations := []\<rparr>"

text \<open>
  A figure and its block of the exported document: the caption as a heading and the image
  with the bytes that \<open>atob\<close> decoded from the figure's payload.
\<close>

definition decodesTo :: "(jsstring \<Rightarrow> jsstring option) \<Rightarrow> Figure \<Rightarrow> docChild list \<Rightarrow> bool" where
  "decodesTo atob f b =
     (\<exists>bin. atob (payloadOf (dataUrl f)) = Some bin
        \<and> b = [Paragraph (caption f) HEADING_3, ImageRun (map (\<lambda>c. c mod 256) bin) 360 240])"

text \<open>
  A decoder and a figure for concrete runs of the exporter: the decoder knows the base64
  text "QUJD" of "ABC" and the empty text, and rejects everything else.
\<close>

definition sampleAtob :: "jsstring \<Rightarrow> jsstring option" where
  "sampleAtob s = (if s = asc ''QUJD'' then Some (asc ''ABC'') else if s = [] then Some [] else None)"

definition sampleFigure :: "jsstring \<Rightarrow> Figure" where
  "sampleFigure url = \<lparr>ident = asc ''fig-1'', caption = asc ''Figure 1'', dataUrl = url, selected = True\<rparr>"

text \<open>A text without a backslash, and a finding whose rendered fields have none.\<close>

definition noBackslash :: "jsstring \<Rightarrow> bool" where
  "noBackslash s = (0x5C \<notin> set s)"

definition noBackslashFinding :: "Finding \<Rightarrow> bool" where
  "noBackslashFinding f =
     (noBackslash (category f) \<and> noBackslash (issue f) \<and> list_all noBackslash (mitigations f)
      \<and> list_all noBackslash (recommendations f) \<and> list_all noBackslash (metrics (triggers f)))"

section \<open>Evaluating the normalizer and the patterns\<close>

lemma decompTable_keys: "list_all (\<lambda>(k, v). 0xC0 \<le> k) decompTable"
  by code_simp

lemma decompOf_below: "c < 0xC0 \<Longrightarrow> decompOf c = [c]"
proof -
  assume c: "c < 0xC0"
  have "c \<notin> fst ` set decompTable"
    using decompTable_keys c by (auto simp: list_all_iff)
  then have "map_of decompTable c = None"
    by (simp add: map_of_eq_None_iff)
  then show ?thesis by (simp add: decompOf_def)
qed

lemma ccc_below: "c < 0x300 \<Longrightarrow> ccc c = 0"
  by (simp add: ccc_def cccTable_def)

lemma orderInsert_starter: "ccc c = 0 \<Longrightarrow> orderInsert c ds = c # ds"
  by (cases ds) simp_all

lemmas norm_eval = normalizeForMatch_def toLowerCase_def lowerOf_def normalizeNFD_def
  canonicalOrder_def decompOf_below ccc_below orderInsert_starter isDiacritic_def asc_def

lemmas rx_eval = test_def lit_def isSpace_def isWordChar_def wordBefore_def wordAfter_def
  areaMatches_def

lemmas dict_eval = HCC_ICMPS_def WDC_ICMPS_def hamiltonCityCouncil_def waikatoDistrictCouncil_def
  hamiltonFallback_def waikatoFallback_def

lemma area_names_nonempty:
  "a \<in> set HCC_ICMPS \<union> set WDC_ICMPS \<Longrightarrow> name a \<noteq> []"
  by (auto simp: HCC_ICMPS_def WDC_ICMPS_def asc_def)

lemma councils_differ: "waikatoDistrictCouncil \<noteq> hamiltonCityCouncil"
  by (simp add: dict_eval asc_def)

section \<open>The region classifier: canaries, fallback and disambiguation\<close>

text \<open>
  C8.  The canaries of the classifier: the location "Rotokauri" under Hamilton City
  Council resolves to "Rotokauri ICMP", it is the only match and the handler resolves it
  without opening the chooser; the location "Beerescourt" resolves to the single label
  "Waitawhiriwhiri ICMP" in the same way.
\<close>

theorem classifier_canaries:
  "inferICMP (Some (asc ''Rotokauri'')) hamiltonCityCouncil = asc ''Rotokauri ICMP''
   \<and> inferICMPMatches (Some (asc ''Rotokauri'')) hamiltonCityCouncil = [asc ''Rotokauri ICMP'']
   \<and> inferredICMP (handleAutoDetectICMP (initialState\<lparr>projectLocation := asc ''Rotokauri''\<rparr>))
       = asc ''Rotokauri ICMP''
   \<and> showIcmpModal (handleAutoDetectICMP (initialState\<lparr>projectLocation := asc ''Rotokauri''\<rparr>))
       = False
   \<and> inferICMP (Some (asc ''Beerescourt'')) hamiltonCityCouncil = asc ''Waitawhiriwhiri ICMP''
   \<and> inferICMPMatches (Some (asc ''Beerescourt'')) hamiltonCityCouncil
       = [asc ''Waitawhiriwhiri ICMP'']
   \<and> inferredICMP (handleAutoDetectICMP (initialState\<lparr>projectLocation := asc ''Beerescourt''\<rparr>))
       = asc ''Waitawhiriwhiri ICMP''
   \<and> showIcmpModal (handleAutoDetectICMP (initialState\<lparr>projectLocation := asc ''Beerescourt''\<rparr>))
       = False"
proof -
  have r1: "inferICMP (Some (asc ''Rotokauri'')) hamiltonCityCouncil = asc ''Rotokauri ICMP''"
    by (simp add: inferICMP_def HCC_ICMPS_def norm_eval rx_eval)
  have r2: "inferICMPMatches (Some (asc ''Rotokauri'')) hamiltonCityCouncil
              = [asc ''Rotokauri ICMP'']"
    by (simp add: inferICMPMatches_def HCC_ICMPS_def norm_eval rx_eval)
  have b1: "inferICMP (Some (asc ''Beerescourt'')) hamiltonCityCouncil
              = asc ''Waitawhiriwhiri ICMP''"
    by (simp add: inferICMP_def HCC_ICMPS_def norm_eval rx_eval)
  have b2: "inferICMPMatches (Some (asc ''Beerescourt'')) hamiltonCityCouncil
              = [asc ''Waitawhiriwhiri ICMP'']"
    by (simp add: inferICMPMatches_def HCC_ICMPS_def norm_eval rx_eval)
  have ne: "asc ''Rotokauri ICMP'' \<noteq> []" "asc ''Waitawhiriwhiri ICMP'' \<noteq> []"
    by (simp_all add: asc_def)
  show ?thesis
    using ne by (simp add: r1 r2 b1 b2 handleAutoDetectICMP_def initialState_def)
qed

text \<open>
  C2.  Classification has no failing branch: \<open>inferICMP\<close>, \<open>inferICMPMatches\<close> and the
  handler are total functions with a result for every location (\<open>None\<close> is \<open>undefined\<close>)
  and every council name.  When no region of the council's dictionary matches, the result
  is the council's fallback label, resolved without the chooser.  The empty and the
  undefined location under Hamilton City Council give "Hamilton City ICMP (area to
  confirm)"; under Waikato District Council they give "Waikato District ICMP (area to
  confirm)".
\<close>

theorem classify_fallback:
  "(\<not> list_ex (areaMatches (normalizeForMatch location))
          (if councilName = hamiltonCityCouncil then HCC_ICMPS else WDC_ICMPS)
      \<longrightarrow> inferICMP location councilName
            = (if councilName = hamiltonCityCouncil then hamiltonFallback else waikatoFallback)
        \<and> inferICMPMatches location councilName
            = [if councilName = hamiltonCityCouncil then hamiltonFallback else waikatoFallback])
   \<and> (\<not> list_ex (areaMatches (normalizeForMatch (Some (projectLocation s))))
          (if council s = hamiltonCityCouncil then HCC_ICMPS else WDC_ICMPS)
      \<longrightarrow> inferredICMP (handleAutoDetectICMP s)
            = (if council s = hamiltonCityCouncil then hamiltonFallback else waikatoFallback)
        \<and> showIcmpModal (handleAutoDetectICMP s) = False
        \<and> icmpOptions (handleAutoDetectICMP s) = [])
   \<and> inferICMP (Some []) hamiltonCityCouncil = asc ''Hamilton City ICMP (area to confirm)''
   \<and> inferICMP None hamiltonCityCouncil = asc ''Hamilton City ICMP (area to confirm)''
   \<and> inferICMP (Some []) waikatoDistrictCouncil = asc ''Waikato District ICMP (area to confirm)''
   \<and> inferICMP None waikatoDistrictCouncil = asc ''Waikato District ICMP (area to confirm)''"
proof -
  have none: "\<not> list_ex P xs \<Longrightarrow> find P xs = None \<and> filter P xs = []" for P :: "area \<Rightarrow> bool" and xs
    by (induction xs) auto
  have fb: "hamiltonFallback \<noteq> []" "waikatoFallback \<noteq> []"
    by (simp_all add: dict_eval asc_def)
  have gen: "\<not> list_ex (areaMatches (normalizeForMatch loc))
          (if c = hamiltonCityCouncil then HCC_ICMPS else WDC_ICMPS)
      \<Longrightarrow> inferICMP loc c = (if c = hamiltonCityCouncil then hamiltonFallback else waikatoFallback)
        \<and> inferICMPMatches loc c = [if c = hamiltonCityCouncil then hamiltonFallback else waikatoFallback]"
    for loc c
    by (auto simp: inferICMP_def inferICMPMatches_def Let_def dest: none)
  have hnd: "\<not> list_ex (areaMatches (normalizeForMatch (Some (projectLocation s))))
          (if council s = hamiltonCityCouncil then HCC_ICMPS else WDC_ICMPS)
      \<Longrightarrow> inferredICMP (handleAutoDetectICMP s)
            = (if council s = hamiltonCityCouncil then hamiltonFallback else waikatoFallback)
        \<and> showIcmpModal (handleAutoDetectICMP s) = False
        \<and> icmpOptions (handleAutoDetectICMP s) = []"
    using gen [of "Some (projectLocation s)" "council s"] fb
    by (auto simp: handleAutoDetectICMP_def)
  have empty: "normalizeForMatch (Some []) = []" "normalizeForMatch None = []"
    by (simp_all add: norm_eval)
  have e1: "\<not> list_ex (areaMatches []) HCC_ICMPS"
    by (simp add: HCC_ICMPS_def rx_eval)
  have e2: "\<not> list_ex (areaMatches []) WDC_ICMPS"
    by (simp add: WDC_ICMPS_def rx_eval)
  have c1: "inferICMP (Some []) hamiltonCityCouncil = asc ''Hamilton City ICMP (area to confirm)''"
    using gen [of "Some []" hamiltonCityCouncil] e1 by (simp add: empty hamiltonFallback_def)
  have c2: "inferICMP None hamiltonCityCouncil = asc ''Hamilton City ICMP (area to confirm)''"
    using gen [of None hamiltonCityCouncil] e1 by (simp add: empty hamiltonFallback_def)
  have c3: "inferICMP (Some []) waikatoDistrictCouncil = asc ''Waikato District ICMP (area to confirm)''"
    using gen [of "Some []" waikatoDistrictCouncil] e2 councils_differ by (simp add: empty waikatoFallback_def)
  have c4: "inferICMP None waikatoDistrictCouncil = asc ''Waikato District ICMP (area to confirm)''"
    using gen [of None waikatoDistrictCouncil] e2 councils_differ by (simp add: empty waikatoFallback_def)
  show ?thesis using gen hnd c1 c2 c3 c4 by blast
qed

theorem classify_fallback_witness:
  "\<not> list_ex (areaMatches (normalizeForMatch (Some (asc ''Queen Street, Auckland'')))) HCC_ICMPS
   \<and> inferICMP (Some (asc ''Queen Street, Auckland'')) hamiltonCityCouncil
       = asc ''Hamilton City ICMP (area to confirm)''
   \<and> inferICMPMatches (Some (asc ''Queen Street, Auckland'')) hamiltonCityCouncil
       = [asc ''Hamilton City ICMP (area to confirm)'']
   \<and> inferredICMP (handleAutoDetectICMP (initialState\<lparr>projectLocation := asc ''Queen Street, Auckland''\<rparr>))
       = asc ''Hamilton City ICMP (area to confirm)''
   \<and> showIcmpModal (handleAutoDetectICMP (initialState\<lparr>projectLocation := asc ''Queen Street, Auckland''\<rparr>))
       = False"
proof -
  have h: "\<not> list_ex (areaMatches (normalizeForMatch (Some (asc ''Queen Street, Auckland'')))) HCC_ICMPS"
    by (simp add: HCC_ICMPS_def norm_eval rx_eval)
  show ?thesis
    using h classify_fallback [of "Some (asc ''Queen Street, Auckland'')" hamiltonCityCouncil
        "initialState\<lparr>projectLocation := asc ''Queen Street, Auckland''\<rparr>"]
    by (simp add: initialState_def hamiltonFallback_def)
qed

text \<open>
  C1.  When two or more regions of the council's dictionary match the normalized location,
  \<open>inferICMPMatches\<close> returns exactly the matched names in dictionary order, and the
  handler stores them as the options of the chooser, preselects the first one, opens the
  chooser and leaves the resolved label as it was.  Cancelling keeps the label; "Use
  selected ICMP" without another choice sets it to the first candidate.
\<close>

theorem classify_pending:
  assumes "matched = map name (filter (areaMatches (normalizeForMatch (Some (projectLocation s))))
                         (if council s = hamiltonCityCouncil then HCC_ICMPS else WDC_ICMPS))"
    and "2 \<le> length matched"
  shows "inferICMPMatches (Some (projectLocation s)) (council s) = matched
       \<and> icmpOptions (handleAutoDetectICMP s) = matched
       \<and> icmpTemp (handleAutoDetectICMP s) = hd matched
       \<and> showIcmpModal (handleAutoDetectICMP s) = True
       \<and> inferredICMP (handleAutoDetectICMP s) = inferredICMP s
       \<and> inferredICMP (cancelIcmp (handleAutoDetectICMP s)) = inferredICMP s
       \<and> inferredICMP (useSelectedIcmp (handleAutoDetectICMP s)) = hd matched"
proof -
  have m: "inferICMPMatches (Some (projectLocation s)) (council s) = matched"
    using assms by (auto simp: inferICMPMatches_def Let_def)
  obtain m0 ms where ms: "matched = m0 # ms"
    using assms(2) by (cases matched) auto
  have "m0 \<in> set matched" by (simp add: ms)
  then have "m0 \<in> name ` (set HCC_ICMPS \<union> set WDC_ICMPS)"
    unfolding assms(1) by (auto split: if_splits)
  then have ne: "m0 \<noteq> []"
    using area_names_nonempty by auto
  have len: "\<not> length matched \<le> 1" using assms(2) by simp
  show ?thesis
    using ne len
    by (simp add: handleAutoDetectICMP_def m cancelIcmp_def useSelectedIcmp_def) (simp add: ms)
qed

theorem classify_pending_witness:
  "map name (filter (areaMatches (normalizeForMatch (Some (asc ''Forest Lake Road, Te Rapa'')))) HCC_ICMPS)
     = [asc ''Te Rapa ICMP'', asc ''Waitawhiriwhiri ICMP'']
   \<and> icmpOptions (handleAutoDetectICMP (initialState\<lparr>projectLocation := asc ''Forest Lake Road, Te Rapa''\<rparr>))
       = [asc ''Te Rapa ICMP'', asc ''Waitawhiriwhiri ICMP'']
   \<and> icmpTemp (handleAutoDetectICMP (initialState\<lparr>projectLocation := asc ''Forest Lake Road, Te Rapa''\<rparr>))
       = asc ''Te Rapa ICMP''
   \<and> showIcmpModal (handleAutoDetectICMP (initialState\<lparr>projectLocation := asc ''Forest Lake Road, Te Rapa''\<rparr>))
       = True
   \<and> inferredICMP (handleAutoDetectICMP (initialState\<lparr>projectLocation := asc ''Forest Lake Road, Te Rapa''\<rparr>))
       = asc ''(not set)''"
proof -
  have h: "map name (filter (areaMatches (normalizeForMatch (Some (asc ''Forest Lake Road, Te Rapa'')))) HCC_ICMPS)
     = [asc ''Te Rapa ICMP'', asc ''Waitawhiriwhiri ICMP'']"
    by (simp add: HCC_ICMPS_def norm_eval rx_eval)
  show ?thesis
    using h classify_pending [of "[asc ''Te Rapa ICMP'', asc ''Waitawhiriwhiri ICMP'']"
        "initialState\<lparr>projectLocation := asc ''Forest Lake Road, Te Rapa''\<rparr>"]
    by (simp add: initialState_def notSet_def)
qed

section \<open>Substrings\<close>

lemma startsWith_iff: "startsWith s p \<longleftrightarrow> (\<exists>q. s = p @ q)"
  by (induction s p rule: startsWith.induct) auto

lemma includesStr_iff: "includesStr s sub \<longleftrightarrow> (\<exists>p q. s = p @ sub @ q)"
proof (induction s)
  case Nil
  then show ?case by (auto simp: startsWith_iff)
next
  case (Cons c cs)
  show ?case
  proof
    assume "includesStr (c # cs) sub"
    then consider "startsWith (c # cs) sub" | "includesStr cs sub" by auto
    then show "\<exists>p q. c # cs = p @ sub @ q"
    proof cases
      case 1
      then obtain q where "c # cs = sub @ q" by (auto simp: startsWith_iff)
      then have "c # cs = [] @ sub @ q" by simp
      then show ?thesis by blast
    next
      case 2
      then obtain p q where "cs = p @ sub @ q" using Cons.IH by blast
      then have "c # cs = (c # p) @ sub @ q" by simp
      then show ?thesis by blast
    qed
  next
    assume "\<exists>p q. c # cs = p @ sub @ q"
    then obtain p q where pq: "c # cs = p @ sub @ q" by blast
    show "includesStr (c # cs) sub"
    proof (cases p)
      case Nil
      then have "startsWith (c # cs) sub" using pq by (auto simp: startsWith_iff)
      then show ?thesis by simp
    next
      case (Cons d ds)
      then have "cs = ds @ sub @ q" using pq by simp
      then have "includesStr cs sub" using Cons.IH by blast
      then show ?thesis by simp
    qed
  qed
qed

lemma includesStr_middle: "includesStr (p @ sub @ q) sub"
  by (auto simp: includesStr_iff)

lemma includesStr_trans: "includesStr s t \<Longrightarrow> includesStr t u \<Longrightarrow> includesStr s u"
proof -
  assume "includesStr s t" "includesStr t u"
  then obtain p q p' q' where "s = p @ t @ q" "t = p' @ u @ q'"
    by (auto simp: includesStr_iff)
  then have "s = (p @ p') @ u @ (q' @ q)" by simp
  then show ?thesis unfolding includesStr_iff by blast
qed

lemma includesStr_here: "includesStr (sub @ q) sub"
  using includesStr_middle [of "[]" sub q] by simp

lemma includesStr_skip: "includesStr t sub \<Longrightarrow> includesStr (p @ t) sub"
proof -
  assume "includesStr t sub"
  then obtain a b where "t = a @ sub @ b" by (auto simp: includesStr_iff)
  then have "p @ t = (p @ a) @ sub @ b" by simp
  then show ?thesis unfolding includesStr_iff by blast
qed

section \<open>The technical-voice renderer and the council branch\<close>

text \<open>
  C9.  The assessment-scope paragraph of the technical-voice document contains "He Pou
  Manawa Ora; Hamilton District Plan" when the council is Hamilton City Council and
  "Waikato District Plan" otherwise; the document contains the paragraph; and setting
  the council to \<open>c\<close> with everything else unchanged gives the same paragraph with the
  phrase of \<open>c\<close> between the same two texts.
\<close>

theorem council_policy_phrase:
  "(council s = hamiltonCityCouncil \<longrightarrow>
      includesStr (scope s) (asc ''He Pou Manawa Ora; Hamilton District Plan''))
   \<and> (council s \<noteq> hamiltonCityCouncil \<longrightarrow> includesStr (scope s) (asc ''Waikato District Plan''))
   \<and> includesStr (buildStandardCouncil s findings) (scope s)
   \<and> scope (s\<lparr>council := c\<rparr>) =
        scopeBefore @ (if c = hamiltonCityCouncil then asc ''He Pou Manawa Ora; Hamilton District Plan''
                       else asc ''Waikato District Plan'') @ scopeAfter s"
proof -
  have a: "includesStr (scope s) (policyInstruments (council s))"
    unfolding scope_def by (rule includesStr_middle)
  have b: "includesStr (buildStandardCouncil s findings) (scope s)"
    unfolding buildStandardCouncil_def by (rule includesStr_here | rule includesStr_skip)+
  have c: "scope (s\<lparr>council := c\<rparr>) =
        scopeBefore @ (if c = hamiltonCityCouncil then asc ''He Pou Manawa Ora; Hamilton District Plan''
                       else asc ''Waikato District Plan'') @ scopeAfter s"
    by (simp add: scope_def policyInstruments_def scopeAfter_def)
  show ?thesis using a b c by (auto simp: policyInstruments_def)
qed

theorem council_policy_phrase_witness:
  "council initialState = hamiltonCityCouncil
   \<and> includesStr (scope initialState) (asc ''He Pou Manawa Ora; Hamilton District Plan'')
   \<and> council (initialState\<lparr>council := waikatoDistrictCouncil\<rparr>) \<noteq> hamiltonCityCouncil
   \<and> includesStr (scope (initialState\<lparr>council := waikatoDistrictCouncil\<rparr>)) (asc ''Waikato District Plan'')
   \<and> includesStr (buildStandardCouncil initialState sampleFindings) (scope initialState)"
proof -
  have h: "council initialState = hamiltonCityCouncil"
    by (simp add: initialState_def)
  have w: "council (initialState\<lparr>council := waikatoDistrictCouncil\<rparr>) \<noteq> hamiltonCityCouncil"
    using councils_differ by simp
  note t1 = council_policy_phrase [of initialState sampleFindings "council initialState"]
  note t2 = council_policy_phrase [of "initialState\<lparr>council := waikatoDistrictCouncil\<rparr>"
      sampleFindings waikatoDistrictCouncil]
  from t1 h have a: "includesStr (scope initialState) (asc ''He Pou Manawa Ora; Hamilton District Plan'')"
    by blast
  from t1 have b: "includesStr (buildStandardCouncil initialState sampleFindings) (scope initialState)"
    by blast
  from t2 w have c: "includesStr (scope (initialState\<lparr>council := waikatoDistrictCouncil\<rparr>))
      (asc ''Waikato District Plan'')"
    by blast
  show ?thesis using h w a b c by blast
qed

section \<open>The monitoring plan deriver\<close>

lemma base_rows_cover_mudfish: "coversMudfish baseMonitoringPlanRows"
  by (simp add: coversMudfish_def baseMonitoringPlanRows_def toLowerCase_def lowerOf_def asc_def)

lemma derive_rows_eq:
  "deriveMonitoringRows findings councilName flag =
     baseMonitoringPlanRows @ [if councilName = hamiltonCityCouncil then hpmoRow flag else waikatoRow]"
  by (simp add: deriveMonitoringRows_def base_rows_cover_mudfish)

text \<open>
  C3.  The deriver returns the four base rows, with nothing or the species row placed after
  the first of them (index 1), followed by exactly one row chosen by the council: five or
  six rows.
\<close>

theorem derive_rows_shape:
  "(\<exists>mid. deriveMonitoringRows findings councilName flag =
        take 1 baseMonitoringPlanRows @ mid @ drop 1 baseMonitoringPlanRows @
        [if councilName = hamiltonCityCouncil then hpmoRow flag else waikatoRow]
      \<and> (mid = [] \<or> mid = [speciesRow]))
   \<and> length baseMonitoringPlanRows = 4
   \<and> (length (deriveMonitoringRows findings councilName flag) = 5
      \<or> length (deriveMonitoringRows findings councilName flag) = 6)"
proof -
  have four: "length baseMonitoringPlanRows = 4"
    by (simp add: baseMonitoringPlanRows_def)
  have "deriveMonitoringRows findings councilName flag =
        take 1 baseMonitoringPlanRows @ [] @ drop 1 baseMonitoringPlanRows @
        [if councilName = hamiltonCityCouncil then hpmoRow flag else waikatoRow]"
    by (simp add: derive_rows_eq)
  moreover have "length (deriveMonitoringRows findings councilName flag) = 5"
    by (simp add: derive_rows_eq four)
  ultimately show ?thesis using four by blast
qed

section \<open>Council names other than the two options\<close>

text \<open>
  C10.  Every council-dependent branch compares the council name with the exact string
  "Hamilton City Council".  For any other name the classifier searches the Waikato
  dictionary and falls back to "Waikato District ICMP (area to confirm)", the
  technical-voice document carries "Waikato District Plan", and the deriver appends the
  weekly access/noise row: all exactly as for "Waikato District Council".
\<close>

theorem other_council_is_waikato:
  assumes "councilName \<noteq> hamiltonCityCouncil"
  shows "inferICMP location councilName = inferICMP location waikatoDistrictCouncil
       \<and> inferICMP location councilName =
           (case find (areaMatches (normalizeForMatch location)) WDC_ICMPS of
              Some hit \<Rightarrow> name hit
            | None \<Rightarrow> asc ''Waikato District ICMP (area to confirm)'')
       \<and> inferICMPMatches location councilName = inferICMPMatches location waikatoDistrictCouncil
       \<and> handleAutoDetectICMP (s\<lparr>council := councilName\<rparr>)
           = (handleAutoDetectICMP (s\<lparr>council := waikatoDistrictCouncil\<rparr>))\<lparr>council := councilName\<rparr>
       \<and> policyInstruments councilName = asc ''Waikato District Plan''
       \<and> buildStandardCouncil (s\<lparr>council := councilName\<rparr>) findings
           = buildStandardCouncil (s\<lparr>council := waikatoDistrictCouncil\<rparr>) findings
       \<and> deriveMonitoringRows findings councilName flag
           = deriveMonitoringRows findings waikatoDistrictCouncil flag
       \<and> last (deriveMonitoringRows findings councilName flag) = waikatoRow
       \<and> frequency waikatoRow = asc ''Weekly''"
proof -
  note w = councils_differ
  have i: "inferICMP location councilName = inferICMP location waikatoDistrictCouncil"
    using assms w by (simp add: inferICMP_def)
  have i': "inferICMP location councilName =
           (case find (areaMatches (normalizeForMatch location)) WDC_ICMPS of
              Some hit \<Rightarrow> name hit
            | None \<Rightarrow> asc ''Waikato District ICMP (area to confirm)'')"
    using assms by (simp add: inferICMP_def waikatoFallback_def split: option.splits)
  have m: "inferICMPMatches location councilName = inferICMPMatches location waikatoDistrictCouncil"
    for location
    using assms w by (simp add: inferICMPMatches_def)
  have h: "handleAutoDetectICMP (s\<lparr>council := councilName\<rparr>)
           = (handleAutoDetectICMP (s\<lparr>council := waikatoDistrictCouncil\<rparr>))\<lparr>council := councilName\<rparr>"
    using assms w by (simp add: handleAutoDetectICMP_def m Let_def)
  have p: "policyInstruments councilName = asc ''Waikato District Plan''"
    "policyInstruments waikatoDistrictCouncil = asc ''Waikato District Plan''"
    using assms w by (simp_all add: policyInstruments_def)
  have b: "buildStandardCouncil (s\<lparr>council := councilName\<rparr>) findings
           = buildStandardCouncil (s\<lparr>council := waikatoDistrictCouncil\<rparr>) findings"
    by (simp add: buildStandardCouncil_def scope_def scopeAfter_def p)
  have d: "deriveMonitoringRows findings councilName flag
           = deriveMonitoringRows findings waikatoDistrictCouncil flag"
    "last (deriveMonitoringRows findings councilName flag) = waikatoRow"
    using assms w by (simp_all add: deriveMonitoringRows_def Let_def)
  have f: "frequency waikatoRow = asc ''Weekly''"
    by (simp add: waikatoRow_def)
  show ?thesis using i i' m h p(1) b d f by blast
qed

theorem other_council_is_waikato_witness:
  "asc ''Hamilton city council'' \<noteq> hamiltonCityCouncil
   \<and> inferICMP (Some (asc ''Huntly'')) (asc ''Hamilton city council'') = asc ''Huntly ICMP''
   \<and> inferICMP (Some (asc ''Rotokauri'')) (asc ''Hamilton city council'')
       = asc ''Waikato District ICMP (area to confirm)''
   \<and> policyInstruments (asc ''Hamilton city council'') = asc ''Waikato District Plan''
   \<and> last (deriveMonitoringRows sampleFindings (asc ''Hamilton city council'') True) = waikatoRow"
proof -
  have h: "asc ''Hamilton city council'' \<noteq> hamiltonCityCouncil"
    by (simp add: hamiltonCityCouncil_def asc_def)
  have f1: "(case find (areaMatches (normalizeForMatch (Some (asc ''Huntly'')))) WDC_ICMPS of
         Some hit \<Rightarrow> name hit | None \<Rightarrow> asc ''Waikato District ICMP (area to confirm)'')
       = asc ''Huntly ICMP''"
    by (simp add: WDC_ICMPS_def norm_eval rx_eval)
  have f2: "(case find (areaMatches (normalizeForMatch (Some (asc ''Rotokauri'')))) WDC_ICMPS of
         Some hit \<Rightarrow> name hit | None \<Rightarrow> asc ''Waikato District ICMP (area to confirm)'')
       = asc ''Waikato District ICMP (area to confirm)''"
    by (simp add: WDC_ICMPS_def norm_eval rx_eval)
  note t1 = other_council_is_waikato [OF h, of "Some (asc ''Huntly'')" initialState sampleFindings True]
  note t2 = other_council_is_waikato [OF h, of "Some (asc ''Rotokauri'')" initialState sampleFindings True]
  from t1 have a: "inferICMP (Some (asc ''Huntly'')) (asc ''Hamilton city council'') =
      (case find (areaMatches (normalizeForMatch (Some (asc ''Huntly'')))) WDC_ICMPS of
         Some hit \<Rightarrow> name hit | None \<Rightarrow> asc ''Waikato District ICMP (area to confirm)'')"
    by blast
  from t2 have b: "inferICMP (Some (asc ''Rotokauri'')) (asc ''Hamilton city council'') =
      (case find (areaMatches (normalizeForMatch (Some (asc ''Rotokauri'')))) WDC_ICMPS of
         Some hit \<Rightarrow> name hit | None \<Rightarrow> asc ''Waikato District ICMP (area to confirm)'')"
    by blast
  from t1 have c: "policyInstruments (asc ''Hamilton city council'') = asc ''Waikato District Plan''"
    by blast
  from t1 have d: "last (deriveMonitoringRows sampleFindings (asc ''Hamilton city council'') True) = waikatoRow"
    by blast
  show ?thesis
    using h c d by (simp add: a b f1 f2)
qed

section \<open>Idempotence of the normalizer\<close>

lemma lowerOf_table:
  "list_all lowerStable [0..<0x40]" "list_all lowerStable [0x40..<0x80]"
  "list_all lowerStable [0x80..<0xC0]" "list_all lowerStable [0xC0..<0x100]"
  "list_all lowerStable [0x100..<0x140]" "list_all lowerStable [0x140..<0x180]"
  by code_simp+

lemma lowerOf_above: "0x180 \<le> c \<Longrightarrow> lowerOf c = [c]"
  by (simp add: lowerOf_def)

lemma lowerStable_all: "lowerStable c"
proof (cases "c < 0x180")
  case True
  then have "c \<in> set [0..<0x40] \<or> c \<in> set [0x40..<0x80] \<or> c \<in> set [0x80..<0xC0]
      \<or> c \<in> set [0xC0..<0x100] \<or> c \<in> set [0x100..<0x140] \<or> c \<in> set [0x140..<0x180]"
    by (simp only: set_upt atLeastLessThan_iff) arith
  then show ?thesis using lowerOf_table unfolding list_all_iff by blast
next
  case False
  then show ?thesis by (simp add: lowerStable_def lowerOf_above)
qed

lemma lowerOf_facts:
  assumes "d \<in> set (lowerOf c)"
  shows "lowerOf d = [d]" and "d = c \<or> d < 0x180 \<or> d = 0x307"
  using lowerStable_all [of c] assms unfolding lowerStable_def list_all_iff by blast+

lemma decompTable_lower_entries:
  "list_all (\<lambda>(k, v). lowerOf k = [k] \<longrightarrow>
      list_all (\<lambda>e. isDiacritic e \<or> (e < 0x80 \<and> lowerOf e = [e])) v) decompTable"
  by code_simp

lemma char_step:
  assumes h2: "ccc c \<noteq> 0 \<longrightarrow> isDiacritic c"
    and d: "d \<in> set (lowerOf c)" and e: "e \<in> set (decompOf d)"
  shows "isDiacritic e \<or> stable e"
proof (cases "map_of decompTable d")
  case None
  then have ed: "e = d" using e by (simp add: decompOf_def)
  have dd: "decompOf d = [d]" using None by (simp add: decompOf_def)
  have l: "lowerOf d = [d]" using d by (rule lowerOf_facts)
  have "ccc d = 0 \<or> isDiacritic d"
  proof -
    from d have "d = c \<or> d < 0x180 \<or> d = 0x307" by (rule lowerOf_facts)
    then show ?thesis
    proof (elim disjE)
      assume "d = c" then show ?thesis using h2 by blast
    next
      assume "d < 0x180" then show ?thesis by (simp add: ccc_below)
    next
      assume "d = 0x307" then show ?thesis by (simp add: isDiacritic_def)
    qed
  qed
  then show ?thesis using ed dd l by (auto simp: stable_def)
next
  case (Some v)
  then have ev: "e \<in> set v" using e by (simp add: decompOf_def)
  have "(d, v) \<in> set decompTable" using Some by (rule map_of_SomeD)
  moreover have "lowerOf d = [d]" using d by (rule lowerOf_facts)
  ultimately have "isDiacritic e \<or> (e < 0x80 \<and> lowerOf e = [e])"
    using decompTable_lower_entries ev unfolding list_all_iff by fastforce
  then show ?thesis
    by (auto simp: stable_def decompOf_below ccc_below)
qed

lemma set_orderInsert: "set (orderInsert c ds) = insert c (set ds)"
  by (induction ds) auto

lemma set_canonicalOrder: "set (canonicalOrder s) = set s"
  unfolding canonicalOrder_def by (induction s) (simp_all add: set_orderInsert)

lemma canonicalOrder_starters: "\<forall>c\<in>set s. ccc c = 0 \<Longrightarrow> canonicalOrder s = s"
  unfolding canonicalOrder_def by (induction s) (simp_all add: orderInsert_starter)

lemma concat_map_single: "\<forall>c\<in>set s. f c = [c] \<Longrightarrow> concat (map f s) = s"
  by (induction s) simp_all

lemma normalize_stable: 
  assumes "\<forall>c\<in>set y. stable c"
  shows "normalizeForMatch (Some y) = y"
proof -
  have l: "toLowerCase y = y"
    unfolding toLowerCase_def using assms by (intro concat_map_single) (simp add: stable_def)
  have d: "concat (map decompOf y) = y"
    using assms by (intro concat_map_single) (simp add: stable_def)
  have o: "canonicalOrder y = y"
    using assms by (intro canonicalOrder_starters) (simp add: stable_def)
  have f: "filter (\<lambda>c. \<not> isDiacritic c) y = y"
    using assms by (simp add: stable_def)
  show ?thesis by (simp add: normalizeForMatch_def normalizeNFD_def l d o f)
qed

text \<open>
  C7 (amended).  The normalizer is idempotent on every string of the repertoire in which
  every combining mark is a diacritic, and on the empty and the undefined input, which
  both normalize to the empty string.
\<close>

theorem normalize_idempotent:
  assumes "\<forall>c\<in>set x. inRepertoire c"
    and "\<forall>c\<in>set x. ccc c \<noteq> 0 \<longrightarrow> isDiacritic c"
  shows "normalizeForMatch (Some (normalizeForMatch (Some x))) = normalizeForMatch (Some x)
       \<and> normalizeForMatch None = []
       \<and> normalizeForMatch (Some []) = []
       \<and> normalizeForMatch (Some (normalizeForMatch None)) = normalizeForMatch None"
proof -
  have "normalizeForMatch (Some (normalizeForMatch (Some x))) = normalizeForMatch (Some x)"
  proof (rule normalize_stable, rule ballI)
  fix e assume "e \<in> set (normalizeForMatch (Some x))"
  then have nd: "\<not> isDiacritic e" and "e \<in> set (concat (map decompOf (concat (map lowerOf x))))"
    by (simp_all add: normalizeForMatch_def normalizeNFD_def set_canonicalOrder toLowerCase_def)
  then obtain c d where "c \<in> set x" "d \<in> set (lowerOf c)" "e \<in> set (decompOf d)"
    by auto
  then have "isDiacritic e \<or> stable e"
    using assms(2) char_step by blast
    then show "stable e" using nd by blast
  qed
  moreover have "normalizeForMatch None = []" "normalizeForMatch (Some []) = []"
    by (simp_all add: norm_eval)
  ultimately show ?thesis by simp
qed

lemma decompOf_samples:
  "decompOf 0x101 = [0x61, 0x304]" "decompOf 0x12B = [0x69, 0x304]" "decompOf 0x12A = [0x49, 0x304]"
  "decompOf 0x304 = [0x304]" "decompOf 0x358 = [0x358]" "decompOf 0x359 = [0x359]"
  by code_simp+

lemma ccc_samples: "ccc 0x304 = 230" "ccc 0x358 = 232" "ccc 0x359 = 220"
  by (simp_all add: ccc_def cccTable_def)

theorem normalize_idempotent_witness:
  "(\<forall>c\<in>set (asc ''Ng'' @ [0x101] @ asc ''ruawa'' @ [0x304] @ asc ''hia''). inRepertoire c)
     = True
   \<and> (\<forall>c\<in>set (asc ''Ng'' @ [0x101] @ asc ''ruawa'' @ [0x304] @ asc ''hia'').
          ccc c \<noteq> 0 \<longrightarrow> isDiacritic c) = True
   \<and> normalizeForMatch (Some (asc ''Ng'' @ [0x101] @ asc ''ruawa'' @ [0x304] @ asc ''hia''))
       = asc ''ngaruawahia''
   \<and> normalizeForMatch (Some (asc ''ngaruawahia'')) = asc ''ngaruawahia''"
proof -
  let ?x = "asc ''Ng'' @ [0x101] @ asc ''ruawa'' @ [0x304] @ asc ''hia''"
  have r: "\<forall>c\<in>set ?x. inRepertoire c"
    by (simp add: asc_def inRepertoire_def)
  have m: "\<forall>c\<in>set ?x. ccc c \<noteq> 0 \<longrightarrow> isDiacritic c"
    by (simp add: asc_def ccc_below ccc_samples isDiacritic_def)
  have v: "normalizeForMatch (Some ?x) = asc ''ngaruawahia''"
    by (simp add: normalizeForMatch_def toLowerCase_def lowerOf_def normalizeNFD_def
        canonicalOrder_def decompOf_samples decompOf_below ccc_samples ccc_below isDiacritic_def asc_def)
  have "normalizeForMatch (Some (normalizeForMatch (Some ?x))) = normalizeForMatch (Some ?x)"
    using normalize_idempotent [OF r m] by blast
  then show ?thesis using r m v by simp
qed

text \<open>
  C7 as stated fails: circumflex (\<open>U+005E\<close>) is a diacritic and a starter, so stripping
  it from between the marks \<open>U+0358\<close> and \<open>U+0359\<close>, which are not diacritics, joins them
  into one run that is out of canonical order, and the second pass reorders it.
\<close>

theorem normalize_idempotent_counterexample:
  "normalizeForMatch (Some [0x61, 0x358, 0x5E, 0x359]) = [0x61, 0x358, 0x359]
   \<and> normalizeForMatch (Some (normalizeForMatch (Some [0x61, 0x358, 0x5E, 0x359]))) = [0x61, 0x359, 0x358]
   \<and> normalizeForMatch (Some (normalizeForMatch (Some [0x61, 0x358, 0x5E, 0x359])))
       \<noteq> normalizeForMatch (Some [0x61, 0x358, 0x5E, 0x359])"
proof -
  have a: "normalizeForMatch (Some [0x61, 0x358, 0x5E, 0x359]) = [0x61, 0x358, 0x359]"
    by (simp add: normalizeForMatch_def toLowerCase_def lowerOf_def normalizeNFD_def
        canonicalOrder_def decompOf_samples decompOf_below ccc_samples ccc_below isDiacritic_def)
  have b: "normalizeForMatch (Some [0x61, 0x358, 0x359]) = [0x61, 0x359, 0x358]"
    by (simp add: normalizeForMatch_def toLowerCase_def lowerOf_def normalizeNFD_def
        canonicalOrder_def decompOf_samples decompOf_below ccc_samples ccc_below isDiacritic_def)
  show ?thesis by (simp add: a b)
qed

section \<open>The species-keyword scan\<close>

lemma lit_asc: "lit s = map (\<lambda>k. One (Ch k)) (asc s)"
  by (simp add: lit_def asc_def)

lemma matchHere_literal: "matchHere (map (\<lambda>k. One (Ch k)) cs) prev rest = startsWith rest cs"
proof (induction cs arbitrary: prev rest)
  case Nil
  then show ?case by simp
next
  case (Cons k ks)
  then show ?case by (cases rest) auto
qed

lemma searchFrom_literals:
  "searchFrom (map (map (\<lambda>k. One (Ch k))) alts) prev s = (\<exists>a\<in>set alts. includesStr s a)"
  by (induction s arbitrary: prev) (auto simp: matchHere_literal list_ex_iff)

lemma test_literals:
  "test (map (map (\<lambda>k. One (Ch k))) alts) s = (\<exists>a\<in>set alts. includesStr s a)"
  by (simp add: test_def searchFrom_literals)

lemma hasMudfish_iff:
  "hasMudfish fs = (includesStr (scanText fs) (asc ''mudfish'')
                    \<or> includesStr (scanText fs) ([0x12B] @ asc ''nanga''))"
proof -
  have eq: "mudfishPattern = map (map (\<lambda>k. One (Ch k))) [asc ''mudfish'', [0x12B] @ asc ''nanga'']"
    by (simp add: mudfishPattern_def lit_asc)
  show ?thesis by (simp only: hasMudfish_def eq test_literals) simp
qed

lemma toLowerCase_append: "toLowerCase (a @ b) = toLowerCase a @ toLowerCase b"
  by (simp add: toLowerCase_def)

lemma toLowerCase_join: "toLowerCase (join sep xs) = join (toLowerCase sep) (map toLowerCase xs)"
  by (induction sep xs rule: join.induct) (simp_all add: toLowerCase_append, simp add: toLowerCase_def)

lemma scanText_lower:
  "scanText fs = join (asc '' '')
     (map (\<lambda>f. toLowerCase (issue f) @ toLowerCase (asc '' '') @
              join (toLowerCase (asc '' '')) (map toLowerCase (recommendations f))) fs)"
  by (simp add: scanText_def toLowerCase_append toLowerCase_join)

lemma scanText_sameUpToCase: "list_all2 sameUpToCase fs gs \<Longrightarrow> scanText fs = scanText gs"
proof -
  assume "list_all2 sameUpToCase fs gs"
  then have "map (\<lambda>f. toLowerCase (issue f) @ toLowerCase (asc '' '') @
              join (toLowerCase (asc '' '')) (map toLowerCase (recommendations f))) fs
           = map (\<lambda>f. toLowerCase (issue f) @ toLowerCase (asc '' '') @
              join (toLowerCase (asc '' '')) (map toLowerCase (recommendations f))) gs"
    by (induction rule: list_all2_induct) (simp_all add: sameUpToCase_def)
  then show ?thesis by (simp only: scanText_lower)
qed

lemma species_row_absent: "speciesRow \<notin> set (deriveMonitoringRows fs c t)"
proof -
  have "focus speciesRow \<notin> focus ` set (deriveMonitoringRows fs c t)"
    by (simp add: derive_rows_eq baseMonitoringPlanRows_def speciesRow_def hpmoRow_def waikatoRow_def asc_def)
  then show ?thesis by blast
qed

text \<open>
  C5 (amended).  The species-keyword scan is case-insensitive and diacritic-sensitive: it
  holds exactly when the lower-cased text contains "mudfish" or the macronised
  \<open>U+012B\<close>"nanga", so two lists of findings (over the repertoire) that differ only in
  letter case scan alike.  Replacing diacritic-marked characters by their plain
  equivalents does not change the rows, and the species row is in neither result: two
  base rows already have a mudfish focus.
\<close>

theorem scan_keywords_and_rows:
  "hasMudfish fs = (includesStr (scanText fs) (asc ''mudfish'')
                    \<or> includesStr (scanText fs) ([0x12B] @ asc ''nanga''))
   \<and> (list_all inRepertoireFinding fs \<and> list_all inRepertoireFinding gs \<and> list_all2 sameUpToCase fs gs
        \<longrightarrow> hasMudfish fs = hasMudfish gs)
   \<and> deriveMonitoringRows (map plainFinding fs) c t = deriveMonitoringRows fs c t
   \<and> speciesRow \<notin> set (deriveMonitoringRows fs c t)
   \<and> speciesRow \<notin> set (deriveMonitoringRows (map plainFinding fs) c t)"
  using hasMudfish_iff [of fs] scanText_sameUpToCase [of fs gs] species_row_absent
  by (auto simp: hasMudfish_def derive_rows_eq)

lemma plain_inanga:
  "plainText (0x12B # asc ''nanga spawning habitat'') = asc ''inanga spawning habitat''"
  by (simp add: plainText_def normalizeNFD_def canonicalOrder_def decompOf_samples decompOf_below
      ccc_samples ccc_below isDiacritic_def asc_def)

text \<open>
  C5 as stated fails: the scan is not diacritic-insensitive.  A finding whose issue has
  the macronised keyword is found, and the same finding with the plain spelling "inanga"
  is not.
\<close>

theorem scan_diacritic_counterexample:
  "plainFinding (inangaFinding ([0x12B] @ asc ''nanga spawning habitat''))
     = inangaFinding (asc ''inanga spawning habitat'')
   \<and> hasMudfish [inangaFinding ([0x12B] @ asc ''nanga spawning habitat'')] = True
   \<and> hasMudfish [plainFinding (inangaFinding ([0x12B] @ asc ''nanga spawning habitat''))] = False"
proof -
  have p: "plainFinding (inangaFinding ([0x12B] @ asc ''nanga spawning habitat''))
     = inangaFinding (asc ''inanga spawning habitat'')"
    by (simp add: plainFinding_def inangaFinding_def plain_inanga)
  have a: "hasMudfish [inangaFinding ([0x12B] @ asc ''nanga spawning habitat'')] = True"
    by (simp add: hasMudfish_def scanText_def inangaFinding_def mudfishPattern_def toLowerCase_def
        lowerOf_def rx_eval asc_def)
  have b: "hasMudfish [inangaFinding (asc ''inanga spawning habitat'')] = False"
    by (simp add: hasMudfish_def scanText_def inangaFinding_def mudfishPattern_def toLowerCase_def
        lowerOf_def rx_eval asc_def)
  show ?thesis by (simp only: p a b)
qed

theorem scan_keywords_and_rows_witness:
  "list_all inRepertoireFinding [inangaFinding (asc ''Loss of MUDFISH and '' @ [0x12A] @ asc ''NANGA habitat'')]
   \<and> list_all inRepertoireFinding [inangaFinding (asc ''loss of mudfish and '' @ [0x12B] @ asc ''nanga habitat'')]
   \<and> list_all2 sameUpToCase
        [inangaFinding (asc ''Loss of MUDFISH and '' @ [0x12A] @ asc ''NANGA habitat'')]
        [inangaFinding (asc ''loss of mudfish and '' @ [0x12B] @ asc ''nanga habitat'')]
   \<and> hasMudfish [inangaFinding (asc ''Loss of MUDFISH and '' @ [0x12A] @ asc ''NANGA habitat'')]
       = hasMudfish [inangaFinding (asc ''loss of mudfish and '' @ [0x12B] @ asc ''nanga habitat'')]
   \<and> hasMudfish [inangaFinding (asc ''loss of mudfish and '' @ [0x12B] @ asc ''nanga habitat'')] = True
   \<and> length (deriveMonitoringRows [inangaFinding (asc ''loss of mudfish and '' @ [0x12B] @ asc ''nanga habitat'')]
         hamiltonCityCouncil True) = 5"
proof -
  let ?f = "inangaFinding (asc ''Loss of MUDFISH and '' @ [0x12A] @ asc ''NANGA habitat'')"
  let ?g = "inangaFinding (asc ''loss of mudfish and '' @ [0x12B] @ asc ''nanga habitat'')"
  have r: "list_all inRepertoireFinding [?f]" "list_all inRepertoireFinding [?g]"
    by (simp_all add: inRepertoireFinding_def inangaFinding_def inRepertoire_def asc_def)
  have s: "list_all2 sameUpToCase [?f] [?g]"
    by (simp add: sameUpToCase_def inangaFinding_def toLowerCase_def lowerOf_def asc_def)
  have t: "hasMudfish [?g] = True"
    by (simp add: hasMudfish_def scanText_def inangaFinding_def mudfishPattern_def toLowerCase_def
        lowerOf_def rx_eval asc_def)
  have l: "length (deriveMonitoringRows [?g] hamiltonCityCouncil True) = 5"
    by (simp add: derive_rows_eq baseMonitoringPlanRows_def)
  have "hasMudfish [?f] = hasMudfish [?g]"
    using scan_keywords_and_rows [of "[?f]" "[?g]" hamiltonCityCouncil True] r s by blast
  then show ?thesis using r s t l by blast
qed

section \<open>Exports are all-or-nothing\<close>

lemma figureBlocks_None:
  "f \<in> set figures \<Longrightarrow> atob (payloadOf (dataUrl f)) = None \<Longrightarrow> figureBlocks atob figures = None"
  by (induction figures) (auto simp: figureBlock_def split: option.splits)

lemma figureBlocks_Some:
  "figureBlocks atob figures = Some blocks \<Longrightarrow> list_all2 (decodesTo atob) figures blocks"
proof (induction figures arbitrary: blocks)
  case Nil
  then show ?case by simp
next
  case (Cons f fs)
  then show ?case
    by (auto simp: figureBlock_def decodesTo_def split: option.splits)
qed

lemma page_effects:
  "downloads (exportFailed pg) = downloads pg"
  "alerts (exportFailed pg) = alerts pg @ [exportFailedMessage]"
  "downloads (deliver n b pg) = downloads pg @ [(n, b)]"
  "alerts (deliver n b pg) = alerts pg"
  by (simp_all add: exportFailed_def deliver_def exportFailedMessage_def)

text \<open>
  C4.  Each export either hands the browser exactly one named file, the blob that the
  packer made of the whole document (with a caption and an image for every figure),
  and raises no alert; or it hands over nothing and raises the failure alert.  When
  \<open>atob\<close> rejects the payload of some figure, or the packer fails, it is the second.
\<close>

theorem export_all_or_nothing:
  "((downloads (exportNarrativeDocx atob toBlob title body figures pg) = downloads pg
      \<and> alerts (exportNarrativeDocx atob toBlob title body figures pg) = alerts pg @ [exportFailedMessage])
    \<or> (\<exists>blocks blob.
          list_all2 (decodesTo atob) figures blocks
        \<and> toBlob (narrativeDoc title body blocks) = Some blob
        \<and> downloads (exportNarrativeDocx atob toBlob title body figures pg)
            = downloads pg @ [(replaceSpaces title @ asc ''.docx'', blob)]
        \<and> alerts (exportNarrativeDocx atob toBlob title body figures pg) = alerts pg))
   \<and> ((\<exists>f\<in>set figures. atob (payloadOf (dataUrl f)) = None)
        \<or> (\<exists>blocks. figureBlocks atob figures = Some blocks \<and> toBlob (narrativeDoc title body blocks) = None)
      \<longrightarrow> downloads (exportNarrativeDocx atob toBlob title body figures pg) = downloads pg
        \<and> alerts (exportNarrativeDocx atob toBlob title body figures pg) = alerts pg @ [exportFailedMessage])
   \<and> ((downloads (exportMonitoringDocx toBlob project rows pg) = downloads pg
      \<and> alerts (exportMonitoringDocx toBlob project rows pg) = alerts pg @ [exportFailedMessage])
    \<or> (\<exists>blob.
          toBlob (monitoringDoc project rows) = Some blob
        \<and> downloads (exportMonitoringDocx toBlob project rows pg)
            = downloads pg @ [(asc ''Cultural_Monitoring_Programme_'' @ replaceSpaces project @ asc ''.docx'', blob)]
        \<and> alerts (exportMonitoringDocx toBlob project rows pg) = alerts pg))
   \<and> (toBlob (monitoringDoc project rows) = None
      \<longrightarrow> downloads (exportMonitoringDocx toBlob project rows pg) = downloads pg
        \<and> alerts (exportMonitoringDocx toBlob project rows pg) = alerts pg @ [exportFailedMessage])"
proof -
  have n1: "(downloads (exportNarrativeDocx atob toBlob title body figures pg) = downloads pg
      \<and> alerts (exportNarrativeDocx atob toBlob title body figures pg) = alerts pg @ [exportFailedMessage])
    \<or> (\<exists>blocks blob.
          list_all2 (decodesTo atob) figures blocks
        \<and> toBlob (narrativeDoc title body blocks) = Some blob
        \<and> downloads (exportNarrativeDocx atob toBlob title body figures pg)
            = downloads pg @ [(replaceSpaces title @ asc ''.docx'', blob)]
        \<and> alerts (exportNarrativeDocx atob toBlob title body figures pg) = alerts pg)"
  proof (cases "figureBlocks atob figures")
    case None
    then show ?thesis by (simp add: exportNarrativeDocx_def page_effects)
  next
    case (Some blocks)
    note blocks = this
    show ?thesis
    proof (cases "toBlob (narrativeDoc title body blocks)")
      case None
      then show ?thesis using blocks by (simp add: exportNarrativeDocx_def page_effects)
    next
      case (Some blob)
      then have "list_all2 (decodesTo atob) figures blocks
        \<and> toBlob (narrativeDoc title body blocks) = Some blob
        \<and> downloads (exportNarrativeDocx atob toBlob title body figures pg)
            = downloads pg @ [(replaceSpaces title @ asc ''.docx'', blob)]
        \<and> alerts (exportNarrativeDocx atob toBlob title body figures pg) = alerts pg"
        using blocks figureBlocks_Some [OF blocks]
        by (simp add: exportNarrativeDocx_def page_effects)
      then show ?thesis by blast
    qed
  qed
  have n2: "(\<exists>f\<in>set figures. atob (payloadOf (dataUrl f)) = None)
        \<or> (\<exists>blocks. figureBlocks atob figures = Some blocks \<and> toBlob (narrativeDoc title body blocks) = None)
      \<Longrightarrow> downloads (exportNarrativeDocx atob toBlob title body figures pg) = downloads pg
        \<and> alerts (exportNarrativeDocx atob toBlob title body figures pg) = alerts pg @ [exportFailedMessage]"
    by (auto simp: exportNarrativeDocx_def page_effects dest: figureBlocks_None)
  have m1: "(downloads (exportMonitoringDocx toBlob project rows pg) = downloads pg
      \<and> alerts (exportMonitoringDocx toBlob project rows pg) = alerts pg @ [exportFailedMessage])
    \<or> (\<exists>blob.
          toBlob (monitoringDoc project rows) = Some blob
        \<and> downloads (exportMonitoringDocx toBlob project rows pg)
            = downloads pg @ [(asc ''Cultural_Monitoring_Programme_'' @ replaceSpaces project @ asc ''.docx'', blob)]
        \<and> alerts (exportMonitoringDocx toBlob project rows pg) = alerts pg)"
    by (cases "toBlob (monitoringDoc project rows)") (simp_all add: exportMonitoringDocx_def page_effects)
  have m2: "toBlob (monitoringDoc project rows) = None
      \<Longrightarrow> downloads (exportMonitoringDocx toBlob project rows pg) = downloads pg
        \<and> alerts (exportMonitoringDocx toBlob project rows pg) = alerts pg @ [exportFailedMessage]"
    by (simp add: exportMonitoringDocx_def page_effects)
  show ?thesis using n1 n2 m1 m2 by blast
qed

theorem export_all_or_nothing_witness:
  "sampleAtob (payloadOf (dataUrl (sampleFigure (asc ''data:image/png;base64,%%%'')))) = None
   \<and> exportNarrativeDocx sampleAtob Some (asc ''CIA_Mana_Whenua'') (asc ''line'')
        [sampleFigure (asc ''data:image/png;base64,QUJD''), sampleFigure (asc ''data:image/png;base64,%%%'')]
        \<lparr>downloads = [], alerts = []\<rparr>
       = \<lparr>downloads = [], alerts = [exportFailedMessage]\<rparr>
   \<and> exportMonitoringDocx (\<lambda>d. None :: nat option) (asc ''Te Awa'') [] \<lparr>downloads = [], alerts = []\<rparr>
       = \<lparr>downloads = [], alerts = [exportFailedMessage]\<rparr>
   \<and> exportNarrativeDocx sampleAtob Some (asc ''CIA Mana  Whenua'') (asc ''one'' @ [10] @ asc ''two'')
        [sampleFigure (asc ''data:image/png;base64,QUJD'')] \<lparr>downloads = [], alerts = []\<rparr>
       = \<lparr>downloads = [(asc ''CIA_Mana_Whenua.docx'',
             [Paragraph (asc ''CIA Mana  Whenua'') TITLE,
              Paragraph (asc ''one'') NoHeading, Paragraph (asc ''two'') NoHeading,
              Paragraph (asc ''Selected Figures (Inline)'') HEADING_2,
              Paragraph (asc ''Figure 1'') HEADING_3, ImageRun [65, 66, 67] 360 240])],
           alerts = []\<rparr>"
proof -
  let ?bad = "sampleFigure (asc ''data:image/png;base64,%%%'')"
  let ?good = "sampleFigure (asc ''data:image/png;base64,QUJD'')"
  let ?pg = "\<lparr>downloads = [], alerts = []\<rparr> :: docChild list page"
  have bad: "sampleAtob (payloadOf (dataUrl ?bad)) = None"
    by (simp add: sampleAtob_def payloadOf_def sampleFigure_def asc_def)
  have mem: "\<exists>f\<in>set [?good, ?bad]. sampleAtob (payloadOf (dataUrl f)) = None"
    using bad by simp
  have a: "exportNarrativeDocx sampleAtob Some (asc ''CIA_Mana_Whenua'') (asc ''line'') [?good, ?bad] ?pg
       = \<lparr>downloads = [], alerts = [exportFailedMessage]\<rparr>"
    using mem export_all_or_nothing [of sampleAtob Some "asc ''CIA_Mana_Whenua''" "asc ''line''"
        "[?good, ?bad]" ?pg "[]" "[]"]
    by (intro page.equality) simp_all
  have b: "exportMonitoringDocx (\<lambda>d. None :: nat option) (asc ''Te Awa'') [] \<lparr>downloads = [], alerts = []\<rparr>
       = \<lparr>downloads = [], alerts = [exportFailedMessage]\<rparr>"
    by (simp add: exportMonitoringDocx_def exportFailed_def exportFailedMessage_def)
  have c: "exportNarrativeDocx sampleAtob Some (asc ''CIA Mana  Whenua'') (asc ''one'' @ [10] @ asc ''two'')
        [?good] ?pg
       = \<lparr>downloads = [(asc ''CIA_Mana_Whenua.docx'',
             [Paragraph (asc ''CIA Mana  Whenua'') TITLE,
              Paragraph (asc ''one'') NoHeading, Paragraph (asc ''two'') NoHeading,
              Paragraph (asc ''Selected Figures (Inline)'') HEADING_2,
              Paragraph (asc ''Figure 1'') HEADING_3, ImageRun [65, 66, 67] 360 240])],
           alerts = []\<rparr>"
    by (simp add: exportNarrativeDocx_def figureBlock_def sampleAtob_def payloadOf_def sampleFigure_def
        narrativeDoc_def deliver_def replaceSpaces_def isSpace_def asc_def)
  show ?thesis using bad a b c by blast
qed

section \<open>The marker check of the self-checks\<close>

lemma noBackslash_append: "noBackslash (a @ b) = (noBackslash a \<and> noBackslash b)"
  by (auto simp: noBackslash_def)

lemma noBackslash_Cons: "noBackslash (c # cs) = (c \<noteq> 0x5C \<and> noBackslash cs)"
  by (auto simp: noBackslash_def)

lemma noBackslash_Nil: "noBackslash []"
  by (simp add: noBackslash_def)

lemmas noBackslash_simps = noBackslash_append noBackslash_Cons noBackslash_Nil

lemma noBackslash_join:
  "noBackslash sep \<Longrightarrow> list_all noBackslash xs \<Longrightarrow> noBackslash (join sep xs)"
  by (induction sep xs rule: join.induct) (simp_all add: noBackslash_simps)

lemma noBackslash_showNat: "noBackslash (showNat n)"
proof (induction n rule: showNat.induct)
  case (1 n)
  show ?case
  proof (cases "n < 10")
    case True
    then have "showNat n = [48 + n]" by (subst showNat.simps) simp
    then show ?thesis using True by (simp add: noBackslash_simps)
  next
    case False
    then have "showNat n = showNat (n div 10) @ [48 + n mod 10]" by (subst showNat.simps) simp
    moreover have "48 + n mod 10 < 0x5C" by simp
    ultimately show ?thesis using 1 False by (simp add: noBackslash_simps)
  qed
qed

lemma upperOf_low: "c < 0x61 \<Longrightarrow> upperOf c = [c]"
  by (simp add: upperOf_def)


lemma upperOf_mid: "0x61 \<le> c \<Longrightarrow> c \<le> 0x7A \<Longrightarrow> upperOf c = [c - 32]"
  by (simp add: upperOf_def)

lemma upperOf_latin1: "0x7A < c \<Longrightarrow> c < 0x100 \<Longrightarrow> 0x5C \<notin> set (upperOf c)"
  by (simp add: upperOf_def) arith

lemma upperOf_exta: "0x100 \<le> c \<Longrightarrow> 0x5C \<notin> set (upperOf c)"
  by (simp add: upperOf_def) arith

lemma upperOf_backslash: "c \<noteq> 0x5C \<Longrightarrow> 0x5C \<notin> set (upperOf c)"
proof -
  assume c: "c \<noteq> 0x5C"
  consider "c < 0x61" | "0x61 \<le> c" "c \<le> 0x7A" | "0x7A < c" "c < 0x100" | "0x100 \<le> c"
    by arith
  then show ?thesis
  proof cases
    case 1
    then show ?thesis using c by (simp add: upperOf_low)
  next
    case 2
    then have "c - 32 < 0x5C" by arith
    then show ?thesis using 2 by (simp add: upperOf_mid)
  next
    case 3
    then show ?thesis by (rule upperOf_latin1)
  next
    case 4
    then show ?thesis by (rule upperOf_exta)
  qed
qed

lemma noBackslash_toUpperCase: "noBackslash s \<Longrightarrow> noBackslash (toUpperCase s)"
  unfolding toUpperCase_def noBackslash_def by (induction s) (simp_all add: upperOf_backslash)

lemma list_all_mapIndexed:
  assumes "\<And>x i. x \<in> set xs \<Longrightarrow> P (f x i)"
  shows "list_all P (mapIndexed f xs)"
proof -
  have "list_all P (map (\<lambda>(i, x). f x i) (enumerate n xs))" for n
    using assms by (induction xs arbitrary: n) simp_all
  then show ?thesis by (simp add: mapIndexed_def)
qed

lemma noBackslash_mwCat: "noBackslashFinding f \<Longrightarrow> noBackslash (mwCat f i)"
  by (simp add: mwCat_def noBackslashFinding_def noBackslash_showNat noBackslash_toUpperCase
      noBackslash_join noBackslash_simps asc_def)


lemma noBackslash_render:
  assumes "noBackslash (projectName s)" "noBackslash (inferredICMP s)" "list_all noBackslashFinding findings"
  shows "noBackslash (buildStandardManaWhenua s findings)"
proof -
  have i: "noBackslash (mwIntro s)"
    using assms(1) by (simp add: mwIntro_def noBackslash_simps asc_def)
  have "list_all noBackslash (mapIndexed mwCat findings)"
    using assms(3) by (intro list_all_mapIndexed noBackslash_mwCat) (simp add: list_all_iff)
  then have c: "noBackslash (mwCats findings)"
    unfolding mwCats_def by (intro noBackslash_join) (simp_all add: noBackslash_simps)
  have a: "noBackslash (mwAlign s)"
    using assms(2) by (simp add: mwAlign_def noBackslash_simps asc_def)
  have o: "noBackslash mwOutro"
    by (simp add: mwOutro_def noBackslash_simps asc_def)
  have "list_all noBackslash mwSections"
    by (simp add: mwSections_def noBackslash_simps asc_def)
  then have se: "noBackslash (join ([10] @ asc ''- '') mwSections)"
    by (intro noBackslash_join) (simp_all add: noBackslash_simps asc_def)
  show ?thesis
    using i c a o se by (simp add: buildStandardManaWhenua_def noBackslash_simps asc_def)
qed

lemma marker_needs_backslash: "test markerPattern doc \<Longrightarrow> \<not> noBackslash doc"
proof -
  assume t: "test markerPattern doc"
  have eq: "markerPattern =
      map (map (\<lambda>k. One (Ch k))) [asc ''Whakatau'' @ [0x5C] @ asc ''u0101k'' @ [0x5C] @ asc ''u012B'']"
    by (simp add: markerPattern_def lit_asc)
  from t have "includesStr doc (asc ''Whakatau'' @ [0x5C] @ asc ''u0101k'' @ [0x5C] @ asc ''u012B'')"
    by (simp only: eq test_literals) simp
  then obtain p q where "doc = p @ (asc ''Whakatau'' @ [0x5C] @ asc ''u0101k'' @ [0x5C] @ asc ''u012B'') @ q"
    unfolding includesStr_iff by blast
  then show ?thesis by (simp add: noBackslash_simps)
qed


lemma sample_findings_plain: "list_all noBackslashFinding sampleFindings"
  by (simp add: sampleFindings_def noBackslashFinding_def findingWai_def findingWhenua_def
      findingWhakapapa_def findingWhanau_def findingMauri_def findingWairua_def
      noBackslash_simps asc_def)

lemma macron_marker_rendered:
  "includesStr (buildStandardManaWhenua s findings) (asc ''Whakatau'' @ [0x101] @ asc ''k'' @ [0x12B])"
proof -
  have here: "includesStr (asc ''## Whakatau'' @ [0x101] @ asc ''k'' @ [0x12B] @ rest)
          (asc ''Whakatau'' @ [0x101] @ asc ''k'' @ [0x12B])" for rest
    by (simp add: asc_def)
  have "includesStr (mwIntro s) (asc ''Whakatau'' @ [0x101] @ asc ''k'' @ [0x12B])"
    unfolding mwIntro_def by (rule here | rule includesStr_skip)+
  moreover have "includesStr (buildStandardManaWhenua s findings) (mwIntro s)"
    unfolding buildStandardManaWhenua_def by (simp add: includesStr_here)
  ultimately show ?thesis by (rule includesStr_trans [rotated])
qed

text \<open>
  C6.  The community-voice document of the initial session contains the heading word with
  its macron letters (\<open>U+0101\<close>, \<open>U+012B\<close>), and no backslash; the marker check looks for
  the escape sequences spelled out with backslashes, does not find them, and the
  self-checks stop there with "Unicode escape missing".
\<close>

theorem marker_check_fails:
  "includesStr (buildStandardManaWhenua initialState sampleFindings)
     (asc ''Whakatau'' @ [0x101] @ asc ''k'' @ [0x12B])
   \<and> test markerPattern (buildStandardManaWhenua initialState sampleFindings) = False
   \<and> selfChecks initialState = Inl (asc ''Unicode escape missing'')
   \<and> runSelfChecks initialState = asc ''Test failure: Unicode escape missing''"
proof -
  have "noBackslash (projectName initialState)" "noBackslash (inferredICMP initialState)"
    by (simp_all add: initialState_def notSet_def noBackslash_simps asc_def)
  then have "noBackslash (buildStandardManaWhenua initialState sampleFindings)"
    using sample_findings_plain by (rule noBackslash_render)
  then have t: "test markerPattern (buildStandardManaWhenua initialState sampleFindings) = False"
    using marker_needs_backslash by blast
  have f: "\<not> list_ex (\<lambda>f. category f = [] \<or> issue f = []) sampleFindings"
    by (simp add: sampleFindings_def findingWai_def findingWhenua_def
      findingWhakapapa_def findingWhanau_def findingMauri_def findingWairua_def asc_def)
  have s: "selfChecks initialState = Inl (asc ''Unicode escape missing'')"
    using f t by (simp add: selfChecks_def)
  have r: "runSelfChecks initialState = asc ''Test failure: Unicode escape missing''"
    by (simp add: runSelfChecks_def s) (simp add: asc_def)
  show ?thesis
    using t s r macron_marker_rendered by blast
qed

end
